theory Spec2Isabelle
  imports Complex_Main "HOL-Library.Sublist"
begin

section \<open>Strings\<close>

text \<open>
  A JavaScript string is modelled as a \<^typ>\<open>string\<close>: one \<^typ>\<open>char\<close> for one code unit,
  restricted to the units below 256. \<open>String.prototype.trim\<close> removes the white space and
  line terminators of that range from both ends; \<open>split(',')\<close> cuts at every comma and
  keeps empty pieces; \<open>substring(0, n)\<close> is \<^const>\<open>take\<close>; a string is truthy when it is
  not empty, and \<open>undefined\<close> (the value \<^const>\<open>None\<close>) is falsy.
\<close>

definition isWhiteSpace :: "char \<Rightarrow> bool" where
  "isWhiteSpace c \<longleftrightarrow>
     c \<in> {CHR 0x09, CHR 0x0A, CHR 0x0B, CHR 0x0C, CHR 0x0D, CHR 0x20, CHR 0xA0}"

definition trim :: "string \<Rightarrow> string" where
  "trim s = rev (dropWhile isWhiteSpace (rev (dropWhile isWhiteSpace s)))"

fun split_comma :: "string \<Rightarrow> string list" where
  "split_comma [] = [[]]"
| "split_comma (c # cs) =
     (if c = CHR '','' then [] # split_comma cs
      else (case split_comma cs of
              [] \<Rightarrow> [[c]]
            | piece # pieces \<Rightarrow> (c # piece) # pieces))"

text \<open>The lower-case form of the letters \<open>A\<close> to \<open>Z\<close>; other characters are kept.\<close>

definition toLower :: "char \<Rightarrow> char" where
  "toLower c =
     (case map_of (zip ''ABCDEFGHIJKLMNOPQRSTUVWXYZ'' ''abcdefghijklmnopqrstuvwxyz'') c of
        None \<Rightarrow> c
      | Some l \<Rightarrow> l)"

definition truthy :: "string option \<Rightarrow> bool" where
  "truthy v = (case v of None \<Rightarrow> False | Some s \<Rightarrow> s \<noteq> [])"

section \<open>Documents\<close>

type_synonym objectId = string

record user =
  user_id :: objectId
  role :: string

record comment =
  comment_user :: objectId
  comment_content :: string

record post =
  post_id :: objectId
  title :: string
  slug :: string
  content :: string
  excerpt :: string
  author :: objectId
  category :: objectId
  tags :: "string list"
  featuredImage :: "string option"
  isPublished :: bool
  viewCount :: nat
  comments :: "comment list"
  createdAt :: int

text \<open>
  The fields of \<open>req.body\<close> that the controller reads. They arrive as form fields, so each
  is a string or is absent.
\<close>

record post_body =
  body_title :: "string option"
  body_content :: "string option"
  body_category :: "string option"
  body_tags :: "string option"
  body_excerpt :: "string option"
  body_isPublished :: "string option"

datatype error = CastError | SyntaxError | TypeError | SchemaValidationError
  | MongoServerError | PatternNotModelled | NumberNotModelled

text \<open>
  What a handler does with the request: \<open>res.status(n).json({success: true, data})\<close>,
  \<open>res.status(n).json({success: false, message})\<close>, the 400 reply that carries the
  validator's messages, or \<open>next(error)\<close> from the \<open>catch\<close> block.
\<close>

datatype 'a response =
    Success nat 'a
  | Failure nat string
  | ValidationErrors "string list"
  | Next error

fun status :: "'a response \<Rightarrow> nat option" where
  "status (Success n _) = Some n"
| "status (Failure n _) = Some n"
| "status (ValidationErrors _) = Some 400"
| "status (Next _) = None"

section \<open>Identifiers and the route's validation rules\<close>

definition isHexDigit :: "char \<Rightarrow> bool" where
  "isHexDigit c \<longleftrightarrow> c \<in> set ''0123456789abcdefABCDEF''"

text \<open>
  \<open>mongoose.Types.ObjectId.isValid\<close> on a string (Mongoose 8): 24 hexadecimal digits.
  The store casts a string to an identifier under the same rule and throws a
  \<open>CastError\<close> otherwise. An identifier prints in lower case, so that is the form in
  which the documents hold identifiers and the form a cast produces.
\<close>

definition ObjectId_isValid :: "string \<Rightarrow> bool" where
  "ObjectId_isValid s \<longleftrightarrow> length s = 24 \<and> list_all isHexDigit s"

definition ObjectId_cast :: "string \<Rightarrow> objectId" where
  "ObjectId_cast s = map toLower s"

text \<open>
  \<open>body('category').isMongoId()\<close>: the validator's hexadecimal test admits a prefix
  \<open>0x\<close> or \<open>0h\<close> before at least one digit, and the length must be 24.
\<close>

definition isHexadecimal :: "string \<Rightarrow> bool" where
  "isHexadecimal s \<longleftrightarrow>
     (let digits = (if take 2 s \<in> {''0x'', ''0X'', ''0h'', ''0H''} then drop 2 s else s)
      in digits \<noteq> [] \<and> list_all isHexDigit digits)"

definition isMongoId :: "string \<Rightarrow> bool" where
  "isMongoId s \<longleftrightarrow> isHexadecimal s \<and> length s = 24"

definition field_text :: "string option \<Rightarrow> string" where
  "field_text v = (case v of None \<Rightarrow> [] | Some s \<Rightarrow> s)"

text \<open>The messages of \<open>postValidation\<close>, in the order of the rules.\<close>

definition postValidation :: "post_body \<Rightarrow> string list" where
  "postValidation b =
     (if field_text (body_title b) = [] then [''Title is required''] else []) @
     (if field_text (body_content b) = [] then [''Content is required''] else []) @
     (if isMongoId (field_text (body_category b)) then []
      else [''Valid category ID is required''])"

section \<open>The collection of posts\<close>

text \<open>
  The collection is the list of its documents. \<open>findById\<close> casts its argument first;
  \<open>save\<close> and \<open>findByIdAndUpdate\<close> replace the document that has the identifier,
  \<open>findByIdAndDelete\<close> removes it.
\<close>

definition findById :: "post list \<Rightarrow> string \<Rightarrow> error + post option" where
  "findById store i =
     (if ObjectId_isValid i then Inr (find (\<lambda>p. post_id p = ObjectId_cast i) store)
      else Inl CastError)"

definition findOne_slug :: "post list \<Rightarrow> string \<Rightarrow> post option" where
  "findOne_slug store s = find (\<lambda>p. slug p = s) store"

definition save :: "post list \<Rightarrow> post \<Rightarrow> post list" where
  "save store p = map (\<lambda>q. if post_id q = post_id p then p else q) store"

definition findByIdAndDelete :: "post list \<Rightarrow> string \<Rightarrow> post list" where
  "findByIdAndDelete store i = filter (\<lambda>p. post_id p \<noteq> ObjectId_cast i) store"

section \<open>createPost and updatePost\<close>

text \<open>\<open>tags ? tags.split(',').map(tag => tag.trim()) : []\<close>\<close>

definition tags_of :: "string option \<Rightarrow> string list" where
  "tags_of t = (case t of None \<Rightarrow> [] | Some s \<Rightarrow> if s = [] then [] else map trim (split_comma s))"

text \<open>\<open>content.substring(0, 200) + '...'\<close>\<close>

definition generated_excerpt :: "string \<Rightarrow> string" where
  "generated_excerpt c = take 200 c @ ''...''"

definition uploads_path :: "string \<Rightarrow> string" where
  "uploads_path filename = ''/uploads/'' @ filename"

record postData =
  pd_title :: string
  pd_content :: string
  pd_category :: string
  pd_author :: objectId
  pd_tags :: "string list"
  pd_isPublished :: bool
  pd_excerpt :: string
  pd_featuredImage :: "string option"

text \<open>
  The object \<open>postData\<close> that \<open>createPost\<close> builds once validation has passed (title,
  content and category are then present, and \<^const>\<open>field_text\<close> reads them).
\<close>

definition create_postData :: "user \<Rightarrow> post_body \<Rightarrow> string option \<Rightarrow> postData" where
  "create_postData u b file =
     \<lparr> pd_title = field_text (body_title b),
       pd_content = field_text (body_content b),
       pd_category = field_text (body_category b),
       pd_author = user_id u,
       pd_tags = tags_of (body_tags b),
       pd_isPublished = (body_isPublished b = Some ''true''),
       pd_excerpt = (if truthy (body_excerpt b) then field_text (body_excerpt b)
                     else generated_excerpt (field_text (body_content b))),
       pd_featuredImage = map_option uploads_path file \<rparr>"

text \<open>
  Modelled from the spec: \<open>Post.create\<close> runs the schema of \<open>models/post.js\<close>, which is
  not among the sources. The identifier, the slug and the creation time that it generates
  are parameters; the view count starts at 0 and the comment list is empty. The schema's
  validators are the parameter \<open>validators\<close> of the handler.
\<close>

definition Post_create :: "objectId \<Rightarrow> string \<Rightarrow> int \<Rightarrow> postData \<Rightarrow> post" where
  "Post_create new_id new_slug now pd =
     \<lparr> post_id = new_id, title = pd_title pd, slug = new_slug, content = pd_content pd,
       excerpt = pd_excerpt pd, author = pd_author pd,
       category = ObjectId_cast (pd_category pd),
       tags = pd_tags pd, featuredImage = pd_featuredImage pd,
       isPublished = pd_isPublished pd, viewCount = 0, comments = [], createdAt = now \<rparr>"

definition createPost ::
  "(post \<Rightarrow> bool) \<Rightarrow> objectId \<Rightarrow> string \<Rightarrow> int \<Rightarrow> post list \<Rightarrow> user \<Rightarrow> post_body \<Rightarrow>
     string option \<Rightarrow> post response \<times> post list" where
  "createPost validators new_id new_slug now store u b file =
     (if postValidation b \<noteq> [] then (ValidationErrors (postValidation b), store)
      else
        let doc = Post_create new_id new_slug now (create_postData u b file)
        in if ObjectId_isValid (pd_category (create_postData u b file)) \<and> validators doc
           then (Success 201 doc, store @ [doc])
           else (Next SchemaValidationError, store))"

text \<open>
  The object \<open>updateData\<close> of \<open>updatePost\<close>. The keys \<open>excerpt\<close> and \<open>featuredImage\<close>
  are set only on the branches that assign them.
\<close>

record updateData =
  ud_title :: string
  ud_content :: string
  ud_category :: string
  ud_tags :: "string list"
  ud_isPublished :: bool
  ud_excerpt :: "string option"
  ud_featuredImage :: "string option"

definition update_data :: "post \<Rightarrow> post_body \<Rightarrow> string option \<Rightarrow> updateData" where
  "update_data p b file =
     \<lparr> ud_title = field_text (body_title b),
       ud_content = field_text (body_content b),
       ud_category = field_text (body_category b),
       ud_tags = tags_of (body_tags b),
       ud_isPublished = (body_isPublished b = Some ''true''),
       ud_excerpt =
         (if truthy (body_excerpt b) then body_excerpt b
          else if truthy (body_content b) \<and> field_text (body_content b) \<noteq> content p
          then Some (generated_excerpt (field_text (body_content b)))
          else None),
       ud_featuredImage = map_option uploads_path file \<rparr>"

text \<open>The document after \<open>findByIdAndUpdate\<close> has set the keys of \<open>updateData\<close>.\<close>

definition apply_update :: "post \<Rightarrow> updateData \<Rightarrow> post" where
  "apply_update p d =
     p \<lparr> title := ud_title d, content := ud_content d,
         category := ObjectId_cast (ud_category d),
         tags := ud_tags d, isPublished := ud_isPublished d,
         excerpt := (case ud_excerpt d of None \<Rightarrow> excerpt p | Some e \<Rightarrow> e),
         featuredImage :=
           (case ud_featuredImage d of None \<Rightarrow> featuredImage p | Some f \<Rightarrow> Some f) \<rparr>"

text \<open>\<open>post.author.toString() !== req.user._id.toString() && req.user.role !== 'admin'\<close>\<close>

definition not_authorized :: "post \<Rightarrow> user \<Rightarrow> bool" where
  "not_authorized p u \<longleftrightarrow> author p \<noteq> user_id u \<and> role u \<noteq> ''admin''"

definition updatePost ::
  "(updateData \<Rightarrow> bool) \<Rightarrow> post list \<Rightarrow> user \<Rightarrow> string \<Rightarrow> post_body \<Rightarrow> string option \<Rightarrow>
     post response \<times> post list" where
  "updatePost validators store u i b file =
     (if postValidation b \<noteq> [] then (ValidationErrors (postValidation b), store)
      else
        case findById store i of
          Inl e \<Rightarrow> (Next e, store)
        | Inr None \<Rightarrow> (Failure 404 ''Post not found'', store)
        | Inr (Some p) \<Rightarrow>
            if not_authorized p u
            then (Failure 403 ''Not authorized to update this post'', store)
            else
              let d = update_data p b file
              in if \<not> ObjectId_isValid (ud_category d) then (Next CastError, store)
                 else if \<not> validators d then (Next SchemaValidationError, store)
                 else (Success 200 (apply_update p d), save store (apply_update p d)))"

section \<open>deletePost\<close>

definition deletePost :: "post list \<Rightarrow> user \<Rightarrow> string \<Rightarrow> string response \<times> post list" where
  "deletePost store u i =
     (case findById store i of
        Inl e \<Rightarrow> (Next e, store)
      | Inr None \<Rightarrow> (Failure 404 ''Post not found'', store)
      | Inr (Some p) \<Rightarrow>
          if not_authorized p u
          then (Failure 403 ''Not authorized to delete this post'', store)
          else (Success 200 ''Post deleted successfully'', findByIdAndDelete store i))"

section \<open>getPost\<close>

text \<open>
  Modelled from the spec: the schema method \<open>incrementViewCount\<close> of \<open>models/post.js\<close>,
  which is not among the sources. It adds one to the view counter of the document; the
  handler's \<open>await\<close> then has the document saved.
\<close>

definition incrementViewCount :: "post \<Rightarrow> post" where
  "incrementViewCount p = p \<lparr> viewCount := viewCount p + 1 \<rparr>"

definition getPost :: "post list \<Rightarrow> string \<Rightarrow> post response \<times> post list" where
  "getPost store param =
     (case (if ObjectId_isValid param then findById store param
            else Inr (findOne_slug store param)) of
        Inl e \<Rightarrow> (Next e, store)
      | Inr None \<Rightarrow> (Failure 404 ''Post not found'', store)
      | Inr (Some p) \<Rightarrow>
          (Success 200 (incrementViewCount p), save store (incrementViewCount p)))"

section \<open>addComment\<close>

text \<open>
  The route takes a JSON body, so \<open>req.body.content\<close> is any JSON value or is absent. A
  number is the double that the parser read: a rational, or an infinity for a literal
  beyond the range of doubles. \<open>!content\<close> holds of \<open>undefined\<close>, \<open>null\<close>, \<open>false\<close>,
  zero and the empty string.
\<close>

datatype js_value =
    Undefined
  | Null
  | Boolean bool
  | Number rat
  | Infinity
  | String string
  | Structured

definition truthy_value :: "js_value \<Rightarrow> bool" where
  "truthy_value v =
     (case v of
        Undefined \<Rightarrow> False
      | Null \<Rightarrow> False
      | Boolean b \<Rightarrow> b
      | Number r \<Rightarrow> r \<noteq> 0
      | Infinity \<Rightarrow> True
      | String s \<Rightarrow> s \<noteq> []
      | Structured \<Rightarrow> True)"

text \<open>
  The handler calls the schema method \<open>post.addComment(userId, content)\<close>, declared in
  \<open>models/post.js\<close>, which is not among the sources: it is the parameter \<open>method\<close>,
  which returns the document to save or the error it throws.
\<close>

definition addComment ::
  "(post \<Rightarrow> objectId \<Rightarrow> js_value \<Rightarrow> error + post) \<Rightarrow> post list \<Rightarrow> user \<Rightarrow> js_value \<Rightarrow>
     string \<Rightarrow> comment list response \<times> post list" where
  "addComment method store u body_content_field postId =
     (if \<not> truthy_value body_content_field
      then (Failure 400 ''Comment content is required'', store)
      else
        case findById store postId of
          Inl e \<Rightarrow> (Next e, store)
        | Inr None \<Rightarrow> (Failure 404 ''Post not found'', store)
        | Inr (Some p) \<Rightarrow>
            (case method p (user_id u) body_content_field of
               Inl e \<Rightarrow> (Next e, store)
             | Inr p' \<Rightarrow>
                 (case findById (save store p') postId of
                    Inr (Some updatedPost) \<Rightarrow> (Success 201 (comments updatedPost), save store p')
                  | Inr None \<Rightarrow> (Next TypeError, save store p')
                  | Inl e \<Rightarrow> (Next e, save store p'))))"

section \<open>getPosts and searchPosts\<close>

text \<open>
  The search term is handed to \<open>new RegExp(term, 'i')\<close> and to the store's \<open>$regex\<close>
  operator with option \<open>i\<close>. The regular-expression engine is the parameter \<open>regexp\<close>
  of the two handlers: for a pattern it gives the error that compiling it throws, or the
  test that tells whether the pattern matches somewhere in a string. The \<open>$or\<close> of the
  three conditions holds when the pattern matches the title, the content, or an element
  of the tag list.
\<close>

type_synonym engine = "string \<Rightarrow> error + (string \<Rightarrow> bool)"

definition search_matches :: "(string \<Rightarrow> bool) \<Rightarrow> post \<Rightarrow> bool" where
  "search_matches matches p \<longleftrightarrow>
     matches (title p) \<or> matches (content p) \<or> list_ex matches (tags p)"

text \<open>
  Numbers. The handler computes with doubles. A double holds every integer up to
  \<open>2\<^sup>5\<^sup>3\<close> in magnitude exactly, and a sum, difference or product of such integers is
  computed exactly when the result is again at most \<open>2\<^sup>5\<^sup>3\<close> in magnitude. The model
  follows the handler on these values, as \<open>Num\<close>. Where a value would exceed the bound
  the double is a rounded one or an infinity: the model does not follow it there and
  says \<open>Inexact\<close>, and \<open>getPosts\<close> then answers \<open>Next NumberNotModelled\<close>, which stands
  for whatever the handler does.
\<close>

datatype number = NaN | Num int | Inexact

definition max_exact :: int where
  "max_exact = 9007199254740992"

definition exact :: "int \<Rightarrow> number" where
  "exact n = (if \<bar>n\<bar> \<le> max_exact then Num n else Inexact)"

text \<open>
  \<open>parseInt\<close> of a query parameter: leading white space is skipped, a sign is read, a
  prefix \<open>0x\<close> selects radix 16, and the longest run of digits is the value; with no digit
  the result is \<open>NaN\<close>, as it is for an absent parameter.
\<close>

definition digit_of :: "char \<Rightarrow> nat" where
  "digit_of c =
     (let n = (of_char c :: nat)
      in if 48 \<le> n \<and> n \<le> 57 then n - 48
         else if 97 \<le> n \<and> n \<le> 122 then n - 87
         else if 65 \<le> n \<and> n \<le> 90 then n - 55
         else 36)"

definition digits_value :: "nat \<Rightarrow> string \<Rightarrow> nat" where
  "digits_value radix ds = foldl (\<lambda>acc c. acc * radix + digit_of c) 0 ds"

definition parseInt :: "string option \<Rightarrow> number" where
  "parseInt v =
     (case v of
        None \<Rightarrow> NaN
      | Some s \<Rightarrow>
          let s1 = dropWhile isWhiteSpace s;
              negative = (take 1 s1 = ''-'');
              s2 = (if take 1 s1 = ''-'' \<or> take 1 s1 = ''+'' then drop 1 s1 else s1);
              hex = (take 2 s2 = ''0x'' \<or> take 2 s2 = ''0X'');
              radix = (if hex then 16 else 10);
              s3 = (if hex then drop 2 s2 else s2);
              ds = takeWhile (\<lambda>c. digit_of c < radix) s3
          in if ds = [] then NaN
             else exact ((if negative then - 1 else 1) * int (digits_value radix ds)))"

text \<open>\<open>parseInt(x) || d\<close>: \<open>NaN\<close> and zero are falsy, every other number is kept.\<close>

definition or_default :: "number \<Rightarrow> int \<Rightarrow> number" where
  "or_default v d =
     (case v of
        NaN \<Rightarrow> Num d
      | Num n \<Rightarrow> if n = 0 then Num d else Num n
      | Inexact \<Rightarrow> Inexact)"

text \<open>The parameters of \<open>req.query\<close> that \<open>getPosts\<close> reads, each a string or absent.\<close>

record posts_query =
  q_page :: "string option"
  q_limit :: "string option"
  q_category :: "string option"
  q_search :: "string option"

record listing =
  data :: "post list"
  page :: int
  limit :: int
  total :: int
  pages :: int

definition page_of :: "posts_query \<Rightarrow> number" where
  "page_of q = or_default (parseInt (q_page q)) 1"

definition limit_of :: "posts_query \<Rightarrow> number" where
  "limit_of q = or_default (parseInt (q_limit q)) 10"

text \<open>\<open>(page - 1) * limit\<close>\<close>

definition skip_of :: "posts_query \<Rightarrow> number" where
  "skip_of q =
     (case page_of q of
        Num pg \<Rightarrow> (case limit_of q of Num lmt \<Rightarrow> exact ((pg - 1) * lmt) | _ \<Rightarrow> Inexact)
      | _ \<Rightarrow> Inexact)"

text \<open>
  \<open>Math.ceil(total / limit)\<close> for a count and a divisor that is not zero. The division
  rounds its quotient to a double; when the count and the magnitude of the divisor add
  up to at most \<open>2\<^sup>5\<^sup>3\<close>, a quotient that is not an integer is further from the integer
  below it than half the spacing of the doubles there, so that the ceiling of the double
  is the ceiling of the quotient.
\<close>

definition ceil_div :: "int \<Rightarrow> int \<Rightarrow> int" where
  "ceil_div a b = - ((- a) div b)"

definition pages_of :: "int \<Rightarrow> int \<Rightarrow> number" where
  "pages_of count lmt = (if count + \<bar>lmt\<bar> \<le> max_exact then Num (ceil_div count lmt) else Inexact)"

text \<open>\<open>.sort({ createdAt: -1 })\<close>\<close>

definition newest_first :: "post list \<Rightarrow> post list" where
  "newest_first ps = sort_key (\<lambda>p. - createdAt p) ps"

text \<open>
  The filter of \<open>getPosts\<close>: always \<open>isPublished: true\<close>, the category when the parameter
  is truthy, the search condition when the parameter is truthy.
\<close>

definition posts_filter :: "string option \<Rightarrow> (post \<Rightarrow> bool) \<Rightarrow> post \<Rightarrow> bool" where
  "posts_filter cat cond p \<longleftrightarrow>
     isPublished p \<and> (truthy cat \<longrightarrow> category p = ObjectId_cast (field_text cat)) \<and> cond p"

text \<open>
  The search condition of the filter: the pattern is compiled while the filter object is
  built, before the query runs, and only when the parameter is truthy.
\<close>

definition search_filter :: "engine \<Rightarrow> posts_query \<Rightarrow> error + (post \<Rightarrow> bool)" where
  "search_filter regexp q =
     (if truthy (q_search q)
      then map_sum id search_matches (regexp (field_text (q_search q)))
      else Inr (\<lambda>p. True))"

text \<open>
  The store refuses a negative \<open>skip\<close>; a negative \<open>limit\<close> is sent as its absolute value.
\<close>

definition getPosts :: "engine \<Rightarrow> post list \<Rightarrow> posts_query \<Rightarrow> listing response" where
  "getPosts regexp store q =
     (case search_filter regexp q of
        Inl e \<Rightarrow> Next e
      | Inr cond \<Rightarrow>
          if truthy (q_category q) \<and> \<not> ObjectId_isValid (field_text (q_category q))
          then Next CastError
          else
            let matching = filter (posts_filter (q_category q) cond) store
            in (case page_of q of
                  Num pg \<Rightarrow>
                    (case limit_of q of
                       Num lmt \<Rightarrow>
                         (case skip_of q of
                            Num sk \<Rightarrow>
                              if sk < 0 then Next MongoServerError
                              else
                                (case pages_of (int (length matching)) lmt of
                                   Num pgs \<Rightarrow>
                                     Success 200
                                       \<lparr> data = take (nat \<bar>lmt\<bar>)
                                                  (drop (nat sk) (newest_first matching)),
                                         page = pg,
                                         limit = lmt,
                                         total = int (length matching),
                                         pages = pgs \<rparr>
                                 | _ \<Rightarrow> Next NumberNotModelled)
                          | _ \<Rightarrow> Next NumberNotModelled)
                     | _ \<Rightarrow> Next NumberNotModelled)
                | _ \<Rightarrow> Next NumberNotModelled))"

definition searchPosts :: "engine \<Rightarrow> post list \<Rightarrow> string option \<Rightarrow> post list response" where
  "searchPosts regexp store query =
     (if \<not> truthy query then Failure 400 ''Search query is required''
      else
        case regexp (field_text query) of
          Inl e \<Rightarrow> Next e
        | Inr matches \<Rightarrow>
            Success 200
              (take 20
                 (newest_first (filter (\<lambda>p. isPublished p \<and> search_matches matches p) store))))"

section \<open>A regular-expression engine for simple patterns\<close>

text \<open>
  The engine on the patterns written with parentheses and with characters of the ASCII
  range that are not metacharacters. Such a pattern is well formed exactly when its
  parentheses are balanced; a group without quantifier matches what its contents match,
  and a character matches itself up to the case of the letters \<open>a\<close> to \<open>z\<close>. So the
  pattern matches somewhere in a string when its characters other than parentheses
  occur there in a row, up to case. A pattern with any other character is outside this
  model: the engine answers \<open>PatternNotModelled\<close> for it, which stands for whatever the
  real engine does.
\<close>

definition isMeta :: "char \<Rightarrow> bool" where
  "isMeta c \<longleftrightarrow> c \<in> set ''^$.*+?()[]{}|'' \<or> c = CHR 0x5C"

definition ordinary :: "char \<Rightarrow> bool" where
  "ordinary c \<longleftrightarrow> (of_char c :: nat) < 128 \<and> \<not> isMeta c"

definition isParen :: "char \<Rightarrow> bool" where
  "isParen c \<longleftrightarrow> c = CHR ''('' \<or> c = CHR '')''"

fun balanced :: "nat \<Rightarrow> string \<Rightarrow> bool" where
  "balanced depth [] = (depth = 0)"
| "balanced depth (c # cs) =
     (if c = CHR ''('' then balanced (Suc depth) cs
      else if c = CHR '')'' then (0 < depth \<and> balanced (depth - 1) cs)
      else balanced depth cs)"

fun match_here :: "string \<Rightarrow> string \<Rightarrow> bool" where
  "match_here [] s = True"
| "match_here (a # as) [] = False"
| "match_here (a # as) (c # cs) = (toLower a = toLower c \<and> match_here as cs)"

fun regex_test :: "string \<Rightarrow> string \<Rightarrow> bool" where
  "regex_test as [] = match_here as []"
| "regex_test as (c # cs) = (match_here as (c # cs) \<or> regex_test as cs)"

definition RegExp_i :: engine where
  "RegExp_i pattern =
     (if list_all (\<lambda>c. ordinary c \<or> isParen c) pattern
      then if balanced 0 pattern
           then Inr (regex_test (filter (\<lambda>c. \<not> isParen c) pattern))
           else Inl SyntaxError
      else Inl PatternNotModelled)"

section \<open>The specification's wording\<close>

text \<open>
  The tag list as the specification words it: split on commas, trim every piece, drop the
  empty pieces.
\<close>

definition normalized_tags :: "string option \<Rightarrow> string list" where
  "normalized_tags t =
     (case t of None \<Rightarrow> [] | Some s \<Rightarrow> filter (\<lambda>piece. piece \<noteq> []) (map trim (split_comma s)))"

text \<open>
  The search as the specification words it: the term occurs, up to the case of letters,
  as a contiguous part of the title, the content, or a tag.
\<close>

definition contains_ci :: "string \<Rightarrow> string \<Rightarrow> bool" where
  "contains_ci needle s \<longleftrightarrow> sublist (map toLower needle) (map toLower s)"

definition literal_match :: "string \<Rightarrow> post \<Rightarrow> bool" where
  "literal_match needle p \<longleftrightarrow>
     contains_ci needle (title p) \<or> contains_ci needle (content p) \<or>
     list_ex (contains_ci needle) (tags p)"

text \<open>
  An identifier form of the parameter resolves when the lookup by that form finds a
  document.
\<close>

definition resolves_by_id :: "post list \<Rightarrow> string \<Rightarrow> bool" where
  "resolves_by_id store param =
     (case findById store param of Inr (Some p) \<Rightarrow> True | _ \<Rightarrow> False)"

definition resolves_by_slug :: "post list \<Rightarrow> string \<Rightarrow> bool" where
  "resolves_by_slug store param = (findOne_slug store param \<noteq> None)"


section \<open>Sample requests and documents\<close>

text \<open>
  Modelled from the spec: the limits that the schema of \<open>models/post.js\<close> puts on a
  document, a title of at most 100 characters and an excerpt of at most 200. They stand
  for the handlers' parameter \<open>validators\<close> in the examples.
\<close>

definition schema_validators :: "post \<Rightarrow> bool" where
  "schema_validators p \<longleftrightarrow> length (title p) \<le> 100 \<and> length (excerpt p) \<le> 200"

definition update_validators :: "updateData \<Rightarrow> bool" where
  "update_validators d \<longleftrightarrow>
     length (ud_title d) \<le> 100 \<and> (case ud_excerpt d of None \<Rightarrow> True | Some e \<Rightarrow> length e \<le> 200)"

definition alice :: user where
  "alice = \<lparr> user_id = ''aaaaaaaaaaaaaaaaaaaaaaa1'', role = ''user'' \<rparr>"

definition bob :: user where
  "bob = \<lparr> user_id = ''aaaaaaaaaaaaaaaaaaaaaaa2'', role = ''user'' \<rparr>"

definition carol :: user where
  "carol = \<lparr> user_id = ''aaaaaaaaaaaaaaaaaaaaaaa3'', role = ''admin'' \<rparr>"

definition first_post :: post where
  "first_post =
     \<lparr> post_id = ''bbbbbbbbbbbbbbbbbbbbbbb1'', title = ''My First Post'',
       slug = ''my-first-post'', content = ''Hello world'', excerpt = ''Hello world...'',
       author = ''aaaaaaaaaaaaaaaaaaaaaaa1'', category = ''cccccccccccccccccccccccc'',
       tags = [''react'', ''javascript''], featuredImage = None, isPublished = True,
       viewCount = 0, comments = [], createdAt = 1 \<rparr>"

definition draft_post :: post where
  "draft_post =
     \<lparr> post_id = ''bbbbbbbbbbbbbbbbbbbbbbb2'', title = ''Notes'',
       slug = ''notes'', content = ''Hello again'', excerpt = ''Hello again...'',
       author = ''aaaaaaaaaaaaaaaaaaaaaaa1'', category = ''cccccccccccccccccccccccc'',
       tags = [], featuredImage = None, isPublished = False,
       viewCount = 0, comments = [], createdAt = 2 \<rparr>"

definition hex_post :: post where
  "hex_post =
     \<lparr> post_id = ''bbbbbbbbbbbbbbbbbbbbbbb3'', title = ''deadbeefdeadbeefdeadbeef'',
       slug = ''deadbeefdeadbeefdeadbeef'', content = ''x'', excerpt = ''x...'',
       author = ''aaaaaaaaaaaaaaaaaaaaaaa2'', category = ''cccccccccccccccccccccccc'',
       tags = [], featuredImage = None, isPublished = True,
       viewCount = 0, comments = [], createdAt = 3 \<rparr>"

definition sample_store :: "post list" where
  "sample_store = [first_post, draft_post, hex_post]"

definition sample_body :: post_body where
  "sample_body =
     \<lparr> body_title = Some ''Hello'', body_content = Some ''Hello'',
       body_category = Some ''cccccccccccccccccccccccc'', body_tags = Some ''a,,b'',
       body_excerpt = None, body_isPublished = Some ''true'' \<rparr>"

definition title_only_body :: post_body where
  "title_only_body =
     \<lparr> body_title = Some ''Renamed'', body_content = Some ''Hello world'',
       body_category = Some ''cccccccccccccccccccccccc'', body_tags = None,
       body_excerpt = None, body_isPublished = None \<rparr>"

definition blank_body :: post_body where
  "blank_body =
     \<lparr> body_title = None, body_content = None, body_category = None, body_tags = None,
       body_excerpt = None, body_isPublished = None \<rparr>"

definition no_query :: posts_query where
  "no_query = \<lparr> q_page = None, q_limit = None, q_category = None, q_search = None \<rparr>"

section \<open>Lemmas about the handlers\<close>

lemmas request_defs = postValidation_def field_text_def isMongoId_def isHexadecimal_def
  isHexDigit_def ObjectId_isValid_def ObjectId_cast_def toLower_def truthy_def

lemma length_split_comma: "length (split_comma s) = Suc (count_list s (CHR '',''))"
  by (induction s) (auto split: list.splits)

lemma createPost_Success:
  "createPost V i sl now store u b f = (Success n doc, store') \<Longrightarrow>
     doc = Post_create i sl now (create_postData u b f) \<and> n = 201 \<and> store' = store @ [doc]
     \<and> postValidation b = []"
  by (simp add: createPost_def Let_def split: if_splits) blast

lemma updatePost_Success:
  "updatePost V store u j b f = (Success n doc, store') \<Longrightarrow>
     \<exists>p. findById store j = Inr (Some p) \<and> \<not> not_authorized p u \<and> postValidation b = []
       \<and> doc = apply_update p (update_data p b f) \<and> n = 200 \<and> store' = save store doc"
  by (auto simp add: updatePost_def Let_def split: if_splits sum.splits option.splits)

lemma tags_Post_create:
  "tags (Post_create i sl now (create_postData u b f)) = tags_of (body_tags b)"
  by (simp add: Post_create_def create_postData_def)

lemma tags_apply_update: "tags (apply_update p (update_data p b f)) = tags_of (body_tags b)"
  by (simp add: apply_update_def update_data_def)

lemma filter_tags_of: "filter (\<lambda>piece. piece \<noteq> []) (tags_of t) = normalized_tags t"
  by (cases t) (simp_all add: tags_of_def normalized_tags_def trim_def)

lemma createPost_sample:
  "createPost schema_validators ''bbbbbbbbbbbbbbbbbbbbbbb4'' ''hello'' 4 [] alice sample_body None
     = (Success 201 (Post_create ''bbbbbbbbbbbbbbbbbbbbbbb4'' ''hello'' 4
          (create_postData alice sample_body None)),
        [Post_create ''bbbbbbbbbbbbbbbbbbbbbbb4'' ''hello'' 4
          (create_postData alice sample_body None)])"
  by (simp add: createPost_def request_defs sample_body_def Post_create_def
      create_postData_def schema_validators_def generated_excerpt_def Let_def)

section \<open>C3: the excerpt generated for a short content\<close>

text \<open>
  C3. When no excerpt is supplied, \<open>createPost\<close> stores \<open>content.substring(0, 200) + '...'\<close>
  whatever the length of the content. For the content \<open>Hello\<close>, five characters long, the
  stored excerpt is \<open>Hello...\<close> and not the content itself, which is what the claim
  states for a content of at most 200 characters.
\<close>

theorem C3_short_content_gets_ellipsis:
  "map excerpt (snd (createPost schema_validators ''bbbbbbbbbbbbbbbbbbbbbbb4'' ''hello'' 4 []
       alice sample_body None)) = [''Hello...'']
   \<and> body_content sample_body = Some ''Hello'' \<and> body_excerpt sample_body = None"
  by (simp add: createPost_def request_defs sample_body_def Post_create_def
      create_postData_def schema_validators_def generated_excerpt_def Let_def)

section \<open>C6: the stored tag list\<close>

text \<open>
  C6, as the code has it. The tag list stored by \<open>createPost\<close> and by \<open>updatePost\<close> is
  computed from the \<open>tags\<close> field alone: empty when the field is absent or is the empty
  string, and otherwise the pieces between the commas, each trimmed, in their order and
  with every piece kept, so that the list has one element more than the string has commas.
  Dropping the empty elements of the stored list gives the list of the specification, and
  the two lists are equal exactly when no piece is blank.
\<close>

theorem C6_tags_keep_empty_pieces:
  "(createPost V i sl now store u b f = (Success n doc, store') \<longrightarrow>
      tags doc = tags_of (body_tags b))
   \<and> (updatePost V' store u j b f = (Success n doc, store') \<longrightarrow>
      tags doc = tags_of (body_tags b))
   \<and> tags_of None = [] \<and> tags_of (Some []) = []
   \<and> (s \<noteq> [] \<longrightarrow> tags_of (Some s) = map trim (split_comma s)
                 \<and> length (tags_of (Some s)) = Suc (count_list s (CHR '','')))
   \<and> filter (\<lambda>piece. piece \<noteq> []) (tags_of t) = normalized_tags t
   \<and> (tags_of t = normalized_tags t \<longleftrightarrow> [] \<notin> set (tags_of t))"
proof -
  have c: "createPost V i sl now store u b f = (Success n doc, store') \<longrightarrow>
      tags doc = tags_of (body_tags b)"
    using createPost_Success tags_Post_create by blast
  have u: "updatePost V' store u j b f = (Success n doc, store') \<longrightarrow>
      tags doc = tags_of (body_tags b)"
    using updatePost_Success tags_apply_update by blast
  have "tags_of t = normalized_tags t \<longleftrightarrow>
      filter (\<lambda>piece. piece \<noteq> []) (tags_of t) = tags_of t"
    by (simp add: filter_tags_of eq_commute)
  then have e: "tags_of t = normalized_tags t \<longleftrightarrow> [] \<notin> set (tags_of t)"
    by (auto simp add: filter_id_conv)
  have l: "s \<noteq> [] \<longrightarrow> tags_of (Some s) = map trim (split_comma s)
                 \<and> length (tags_of (Some s)) = Suc (count_list s (CHR '',''))"
    by (simp add: tags_of_def length_split_comma)
  have n: "tags_of None = [] \<and> tags_of (Some []) = []"
    by (simp add: tags_of_def)
  show ?thesis using c u filter_tags_of e l n by blast
qed

text \<open>
  The theorem at the request whose \<open>tags\<close> field is \<open>a,,b\<close>: the post is created, and its
  tag list has three elements, the empty piece among them.
\<close>

theorem C6_tags_keep_empty_pieces_witness:
  "createPost schema_validators ''bbbbbbbbbbbbbbbbbbbbbbb4'' ''hello'' 4 [] alice sample_body None
     = (Success 201 (Post_create ''bbbbbbbbbbbbbbbbbbbbbbb4'' ''hello'' 4
          (create_postData alice sample_body None)),
        [Post_create ''bbbbbbbbbbbbbbbbbbbbbbb4'' ''hello'' 4
          (create_postData alice sample_body None)])
   \<and> tags (Post_create ''bbbbbbbbbbbbbbbbbbbbbbb4'' ''hello'' 4
          (create_postData alice sample_body None)) = [''a'', '''', ''b'']
   \<and> ''a,,b'' \<noteq> []
   \<and> length (tags_of (Some ''a,,b'')) = 3
   \<and> [] \<in> set (tags_of (Some ''a,,b''))
   \<and> tags_of (Some ''a,,b'') \<noteq> normalized_tags (Some ''a,,b'')"
proof -
  have val: "tags_of (Some ''a,,b'') = [''a'', '''', ''b'']"
    by (simp add: tags_of_def trim_def isWhiteSpace_def)
  have body: "body_tags sample_body = Some ''a,,b''"
    by (simp add: sample_body_def)
  show ?thesis
    using C6_tags_keep_empty_pieces [of schema_validators "''bbbbbbbbbbbbbbbbbbbbbbb4''"
        "''hello''" 4 "[]" alice sample_body None 201
        "Post_create ''bbbbbbbbbbbbbbbbbbbbbbb4'' ''hello'' 4
          (create_postData alice sample_body None)"
        "[Post_create ''bbbbbbbbbbbbbbbbbbbbbbb4'' ''hello'' 4
          (create_postData alice sample_body None)]"
        update_validators "''bbbbbbbbbbbbbbbbbbbbbbb4''" "''a,,b''" "Some ''a,,b''"]
      createPost_sample val body
    by simp
qed

text \<open>
  The claim as stated fails at that request: the stored list is \<open>a\<close>, the empty string,
  \<open>b\<close>, and the list with the empty pieces dropped is \<open>a\<close>, \<open>b\<close>.
\<close>

theorem C6_empty_piece_is_stored:
  "map tags (snd (createPost schema_validators ''bbbbbbbbbbbbbbbbbbbbbbb4'' ''hello'' 4 []
       alice sample_body None)) = [[''a'', '''', ''b'']]
   \<and> normalized_tags (body_tags sample_body) = [''a'', ''b'']"
proof -
  have "body_tags sample_body = Some ''a,,b''"
    by (simp add: sample_body_def)
  moreover have "tags_of (Some ''a,,b'') = [''a'', '''', ''b'']"
    by (simp add: tags_of_def trim_def isWhiteSpace_def)
  moreover have "normalized_tags (Some ''a,,b'') = [''a'', ''b'']"
    by (simp add: normalized_tags_def trim_def isWhiteSpace_def)
  ultimately show ?thesis
    by (simp add: createPost_sample tags_Post_create)
qed

section \<open>Lemmas about lookups and the sample store\<close>

lemmas sample_defs = alice_def bob_def carol_def first_post_def draft_post_def hex_post_def
  sample_store_def

lemma deletePost_found:
  "findById store i = Inr (Some p) \<Longrightarrow>
     deletePost store u i =
       (if not_authorized p u then (Failure 403 ''Not authorized to delete this post'', store)
        else (Success 200 ''Post deleted successfully'', findByIdAndDelete store i))"
  by (simp add: deletePost_def)

lemma updatePost_found:
  "findById store i = Inr (Some p) \<Longrightarrow> postValidation b = [] \<Longrightarrow>
     updatePost V store u i b f =
       (if not_authorized p u then (Failure 403 ''Not authorized to update this post'', store)
        else if \<not> ObjectId_isValid (ud_category (update_data p b f)) then (Next CastError, store)
        else if \<not> V (update_data p b f) then (Next SchemaValidationError, store)
        else (Success 200 (apply_update p (update_data p b f)),
              save store (apply_update p (update_data p b f))))"
  by (simp add: updatePost_def Let_def)

lemma updatePost_invalid:
  "postValidation b \<noteq> [] \<Longrightarrow>
     updatePost V store u i b f = (ValidationErrors (postValidation b), store)"
  by (simp add: updatePost_def)

lemma findById_first_post:
  "findById sample_store ''bbbbbbbbbbbbbbbbbbbbbbb1'' = Inr (Some first_post)"
  by (simp add: findById_def request_defs sample_defs)

lemma postValidation_title_only: "postValidation title_only_body = []"
  by (simp add: request_defs title_only_body_def)

lemma postValidation_blank:
  "postValidation blank_body =
     [''Title is required'', ''Content is required'', ''Valid category ID is required'']"
  by (simp add: request_defs blank_body_def)

lemma find_save:
  "find (\<lambda>q. post_id q = k) store = Some p \<Longrightarrow> post_id p' = k \<Longrightarrow>
     find (\<lambda>q. post_id q = k) (save store p') = Some p'"
  by (induction store) (auto simp: save_def split: if_splits)

lemma find_post_id: "find (\<lambda>q. post_id q = k) store = Some p \<Longrightarrow> post_id p = k"
  by (induction store) (auto split: if_splits)

lemma findById_save:
  assumes "findById store i = Inr (Some p)" and "post_id p' = post_id p"
  shows "findById (save store p') i = Inr (Some p')"
proof -
  have v: "ObjectId_isValid i" and f: "find (\<lambda>q. post_id q = ObjectId_cast i) store = Some p"
    using assms(1) by (simp_all add: findById_def split: if_splits)
  have "post_id p' = ObjectId_cast i"
    using find_post_id [OF f] assms(2) by simp
  then have "find (\<lambda>q. post_id q = ObjectId_cast i) (save store p') = Some p'"
    by (rule find_save [OF f])
  then show ?thesis using v by (simp add: findById_def)
qed

lemma post_id_apply_update: "post_id (apply_update p d) = post_id p"
  by (simp add: apply_update_def)

lemma isPublished_apply_update:
  "isPublished (apply_update p (update_data p b f)) = (body_isPublished b = Some ''true'')"
  by (simp add: apply_update_def update_data_def)


lemma getPost_lookup:
  "getPost store param =
     (case (if ObjectId_isValid param then find (\<lambda>p. post_id p = ObjectId_cast param) store
            else findOne_slug store param) of
        None \<Rightarrow> (Failure 404 ''Post not found'', store)
      | Some p \<Rightarrow> (Success 200 (incrementViewCount p), save store (incrementViewCount p)))"
  by (simp add: getPost_def findById_def)

lemma find_unique:
  "p \<in> set xs \<Longrightarrow> distinct (map f xs) \<Longrightarrow> find (\<lambda>q. f q = f p) xs = Some p"
  by (induction xs) (auto simp: image_iff)

lemma find_None_slug:
  "\<forall>p\<in>set store. \<not> ObjectId_isValid (slug p) \<Longrightarrow> ObjectId_isValid param \<Longrightarrow>
     find (\<lambda>p. slug p = param) store = None"
  by (auto simp: find_None_iff)

lemma getPost_status_404:
  "status (fst (getPost store param)) = Some 404 \<longleftrightarrow>
     (if ObjectId_isValid param then \<not> resolves_by_id store param
      else \<not> resolves_by_slug store param)"
  by (simp add: getPost_lookup resolves_by_id_def resolves_by_slug_def findById_def
      split: option.splits)


lemma updatePost_accepted:
  assumes "findById store i = Inr (Some p)" and "\<not> not_authorized p u"
    and "postValidation b = []" and "ObjectId_isValid (field_text (body_category b))"
    and "V (update_data p b f)"
  shows "updatePost V store u i b f =
    (Success 200 (apply_update p (update_data p b f)),
     save store (apply_update p (update_data p b f)))"
proof -
  have cat: "ObjectId_isValid (ud_category (update_data p b f))"
    using assms(4) by (simp add: update_data_def)
  show ?thesis
    using assms(2,5) cat by (simp add: updatePost_found [OF assms(1,3)])
qed
lemma updatePost_refused:
  assumes "findById store i = Inr (Some p)" and "\<not> not_authorized p u"
    and "\<not> (postValidation b = [] \<and> ObjectId_isValid (field_text (body_category b))
            \<and> V (update_data p b f))"
  shows "snd (updatePost V store u i b f) = store
          \<and> status (fst (updatePost V store u i b f)) \<noteq> Some 200"
proof (cases "postValidation b = []")
  case True
  have cat: "ud_category (update_data p b f) = field_text (body_category b)"
    by (simp add: update_data_def)
  note found = updatePost_found [OF assms(1) True, of V u f]
  show ?thesis
  proof (cases "ObjectId_isValid (field_text (body_category b))")
    case valid: True
    then have "\<not> V (update_data p b f)"
      using assms(3) \<open>postValidation b = []\<close> by simp
    then show ?thesis
      using assms(2) valid by (simp add: found cat)
  next
    case False
    then show ?thesis
      using assms(2) by (simp add: found cat)
  qed
next
  case False
  then show ?thesis by (simp add: updatePost_invalid)
qed

section \<open>C1: who may update or delete a post\<close>

text \<open>
  C1, as the code has it. For a post that exists, \<open>deletePost\<close> answers 403 exactly when
  the acting user is neither the author nor an admin, and otherwise deletes the post;
  \<open>updatePost\<close> answers 403 under the same condition once the request has passed the
  route's validation, which it checks first: a request that fails validation is answered
  400 whoever sends it. Whenever the user is neither the author nor an admin, the
  collection is left as it was.
\<close>

theorem C1_owner_or_admin_gate:
  assumes "findById store i = Inr (Some p)"
  shows "(status (fst (deletePost store u i)) = Some 403 \<longleftrightarrow>
            \<not> (author p = user_id u \<or> role u = ''admin''))
     \<and> (author p = user_id u \<or> role u = ''admin'' \<longrightarrow>
          deletePost store u i =
            (Success 200 ''Post deleted successfully'', findByIdAndDelete store i))
     \<and> (\<not> (author p = user_id u \<or> role u = ''admin'') \<longrightarrow> snd (deletePost store u i) = store)
     \<and> (postValidation b = [] \<longrightarrow>
          (status (fst (updatePost V store u i b f)) = Some 403 \<longleftrightarrow>
             \<not> (author p = user_id u \<or> role u = ''admin'')))
     \<and> (\<not> (author p = user_id u \<or> role u = ''admin'') \<longrightarrow>
          snd (updatePost V store u i b f) = store)
     \<and> (postValidation b \<noteq> [] \<longrightarrow>
          updatePost V store u i b f = (ValidationErrors (postValidation b), store))"
proof -
  have d: "deletePost store u i =
       (if not_authorized p u then (Failure 403 ''Not authorized to delete this post'', store)
        else (Success 200 ''Post deleted successfully'', findByIdAndDelete store i))"
    using assms by (rule deletePost_found)
  have na: "not_authorized p u \<longleftrightarrow> \<not> (author p = user_id u \<or> role u = ''admin'')"
    by (simp add: not_authorized_def)
  have c1: "status (fst (deletePost store u i)) = Some 403 \<longleftrightarrow>
            \<not> (author p = user_id u \<or> role u = ''admin'')"
    unfolding d na [symmetric] by simp
  have c2: "author p = user_id u \<or> role u = ''admin'' \<longrightarrow>
          deletePost store u i =
            (Success 200 ''Post deleted successfully'', findByIdAndDelete store i)"
    unfolding d using na by simp
  have c3: "\<not> (author p = user_id u \<or> role u = ''admin'') \<longrightarrow> snd (deletePost store u i) = store"
    unfolding d using na by simp
  have c4: "postValidation b = [] \<longrightarrow>
          (status (fst (updatePost V store u i b f)) = Some 403 \<longleftrightarrow>
             \<not> (author p = user_id u \<or> role u = ''admin''))"
    unfolding na [symmetric] by (simp add: updatePost_found [OF assms])
  have c6: "postValidation b \<noteq> [] \<longrightarrow>
          updatePost V store u i b f = (ValidationErrors (postValidation b), store)"
    by (simp add: updatePost_invalid)
  have c5: "\<not> (author p = user_id u \<or> role u = ''admin'') \<longrightarrow>
          snd (updatePost V store u i b f) = store"
  proof (cases "postValidation b = []")
    case True
    then show ?thesis unfolding na [symmetric] by (simp add: updatePost_found [OF assms])
  next
    case False
    then show ?thesis by (simp add: updatePost_invalid)
  qed
  show ?thesis using c1 c2 c3 c4 c5 c6 by blast
qed

text \<open>
  The theorem on the sample store: Bob, who is neither the author of the first post nor
  an admin, gets 403 from both handlers and the store is unchanged; Carol, an admin,
  deletes the post.
\<close>

theorem C1_owner_or_admin_gate_witness:
  "findById sample_store ''bbbbbbbbbbbbbbbbbbbbbbb1'' = Inr (Some first_post)
   \<and> author first_post \<noteq> user_id bob \<and> role bob \<noteq> ''admin''
   \<and> status (fst (deletePost sample_store bob ''bbbbbbbbbbbbbbbbbbbbbbb1'')) = Some 403
   \<and> snd (deletePost sample_store bob ''bbbbbbbbbbbbbbbbbbbbbbb1'') = sample_store
   \<and> postValidation title_only_body = []
   \<and> status (fst (updatePost update_validators sample_store bob ''bbbbbbbbbbbbbbbbbbbbbbb1''
         title_only_body None)) = Some 403
   \<and> snd (updatePost update_validators sample_store bob ''bbbbbbbbbbbbbbbbbbbbbbb1''
         title_only_body None) = sample_store
   \<and> role carol = ''admin''
   \<and> deletePost sample_store carol ''bbbbbbbbbbbbbbbbbbbbbbb1'' =
        (Success 200 ''Post deleted successfully'', [draft_post, hex_post])"
proof -
  have people: "author first_post \<noteq> user_id bob \<and> role bob \<noteq> ''admin'' \<and> role carol = ''admin''"
    by (simp add: sample_defs)
  have rest: "findByIdAndDelete sample_store ''bbbbbbbbbbbbbbbbbbbbbbb1'' = [draft_post, hex_post]"
    by (simp add: findByIdAndDelete_def request_defs sample_defs)
  show ?thesis
    using C1_owner_or_admin_gate [OF findById_first_post, of bob title_only_body update_validators None]
      C1_owner_or_admin_gate [OF findById_first_post, of carol title_only_body update_validators None]
      findById_first_post postValidation_title_only people rest
    by simp
qed

text \<open>
  The claim as stated fails for an update that does not pass validation: Bob's request
  with an empty body on Alice's post is answered 400, not 403.
\<close>

theorem C1_invalid_update_by_stranger_is_400:
  "findById sample_store ''bbbbbbbbbbbbbbbbbbbbbbb1'' = Inr (Some first_post)
   \<and> author first_post \<noteq> user_id bob \<and> role bob \<noteq> ''admin''
   \<and> status (fst (updatePost update_validators sample_store bob ''bbbbbbbbbbbbbbbbbbbbbbb1''
         blank_body None)) = Some 400"
proof -
  have people: "author first_post \<noteq> user_id bob \<and> role bob \<noteq> ''admin''"
    by (simp add: sample_defs)
  have "updatePost update_validators sample_store bob ''bbbbbbbbbbbbbbbbbbbbbbb1'' blank_body None
      = (ValidationErrors (postValidation blank_body), sample_store)"
    by (rule updatePost_invalid) (simp add: postValidation_blank)
  then show ?thesis
    using findById_first_post people by simp
qed

section \<open>C5: lookup by identifier or by slug\<close>

text \<open>
  C5, as the code has it. \<open>getPost\<close> looks the parameter up as an identifier when it
  has the shape of one and as a slug otherwise, and answers 404 exactly when that one
  lookup finds nothing. When no stored slug has the shape of an identifier, this is
  exactly when neither form resolves. For a post of a collection with distinct
  identifiers and distinct slugs, whose slug does not have the shape of an identifier,
  the call by identifier and the call by slug give the same answer, which is that post
  with its view count raised.
\<close>

theorem C5_lookup_chosen_by_shape:
  "(status (fst (getPost store param)) = Some 404 \<longleftrightarrow>
      (if ObjectId_isValid param then \<not> resolves_by_id store param
       else \<not> resolves_by_slug store param))
   \<and> ((\<forall>q\<in>set store. \<not> ObjectId_isValid (slug q)) \<longrightarrow>
        (status (fst (getPost store param)) = Some 404 \<longleftrightarrow>
           \<not> resolves_by_id store param \<and> \<not> resolves_by_slug store param))
   \<and> (p \<in> set store \<and> distinct (map post_id store) \<and> distinct (map slug store)
        \<and> ObjectId_isValid (post_id p) \<and> ObjectId_cast (post_id p) = post_id p
        \<and> \<not> ObjectId_isValid (slug p) \<longrightarrow>
        getPost store (post_id p) = getPost store (slug p)
        \<and> fst (getPost store (slug p)) = Success 200 (incrementViewCount p))"
proof (intro conjI impI)
  show "status (fst (getPost store param)) = Some 404 \<longleftrightarrow>
      (if ObjectId_isValid param then \<not> resolves_by_id store param
       else \<not> resolves_by_slug store param)"
    by (rule getPost_status_404)
  show "status (fst (getPost store param)) = Some 404 \<longleftrightarrow>
           \<not> resolves_by_id store param \<and> \<not> resolves_by_slug store param"
    if "\<forall>q\<in>set store. \<not> ObjectId_isValid (slug q)"
  proof (cases "ObjectId_isValid param")
    case True
    then have "\<not> resolves_by_slug store param"
      using find_None_slug [OF that True] by (simp add: resolves_by_slug_def findOne_slug_def)
    then show ?thesis using True by (simp add: getPost_status_404)
  next
    case False
    then have "\<not> resolves_by_id store param"
      by (simp add: resolves_by_id_def findById_def)
    then show ?thesis using False by (simp add: getPost_status_404)
  qed
  assume h: "p \<in> set store \<and> distinct (map post_id store) \<and> distinct (map slug store)
        \<and> ObjectId_isValid (post_id p) \<and> ObjectId_cast (post_id p) = post_id p
        \<and> \<not> ObjectId_isValid (slug p)"
  have by_id: "find (\<lambda>q. post_id q = post_id p) store = Some p"
    using h by (intro find_unique) simp_all
  have by_slug: "find (\<lambda>q. slug q = slug p) store = Some p"
    using h by (intro find_unique) simp_all
  show "getPost store (post_id p) = getPost store (slug p)"
    using h by_id by_slug by (simp add: getPost_lookup findOne_slug_def)
  show "fst (getPost store (slug p)) = Success 200 (incrementViewCount p)"
    using h by_slug by (simp add: getPost_lookup findOne_slug_def)
qed

text \<open>
  The theorem on the first two sample posts: the first post is returned by identifier
  and by slug alike, and an unknown slug is answered 404 with neither form resolving.
\<close>

theorem C5_lookup_chosen_by_shape_witness:
  "list_all (\<lambda>q. \<not> ObjectId_isValid (slug q)) [first_post, draft_post]
   \<and> distinct (map post_id [first_post, draft_post]) \<and> distinct (map slug [first_post, draft_post])
   \<and> ObjectId_isValid (post_id first_post) \<and> ObjectId_cast (post_id first_post) = post_id first_post
   \<and> getPost [first_post, draft_post] (post_id first_post) =
       getPost [first_post, draft_post] (slug first_post)
   \<and> fst (getPost [first_post, draft_post] (slug first_post)) =
       Success 200 (incrementViewCount first_post)
   \<and> status (fst (getPost [first_post, draft_post] ''no-such-post'')) = Some 404
   \<and> \<not> resolves_by_id [first_post, draft_post] ''no-such-post''
   \<and> \<not> resolves_by_slug [first_post, draft_post] ''no-such-post''"
proof -
  have s: "\<forall>q\<in>set [first_post, draft_post]. \<not> ObjectId_isValid (slug q)"
    by (simp add: request_defs sample_defs)
  have l: "list_all (\<lambda>q. \<not> ObjectId_isValid (slug q)) [first_post, draft_post]"
    by (simp add: request_defs sample_defs)
  have d1: "distinct (map post_id [first_post, draft_post])"
    by (simp add: sample_defs)
  have d2: "distinct (map slug [first_post, draft_post])"
    by (simp add: sample_defs)
  have i1: "ObjectId_isValid (post_id first_post)"
    by (simp add: request_defs sample_defs)
  have i2: "ObjectId_cast (post_id first_post) = post_id first_post"
    by (simp add: request_defs sample_defs)
  have i3: "\<not> ObjectId_isValid (slug first_post)"
    by (simp add: request_defs sample_defs)
  have m1: "\<not> resolves_by_id [first_post, draft_post] ''no-such-post''"
    by (simp add: request_defs resolves_by_id_def findById_def)
  have m2: "\<not> resolves_by_slug [first_post, draft_post] ''no-such-post''"
    by (simp add: resolves_by_slug_def findOne_slug_def sample_defs)
  have mem: "first_post \<in> set [first_post, draft_post]"
    by simp
  show ?thesis
    using C5_lookup_chosen_by_shape [where store = "[first_post, draft_post]"
        and param = "''no-such-post''" and p = first_post]
      s l d1 d2 i1 i2 i3 m1 m2 mem
    by blast
qed

text \<open>
  The claim as stated fails when a slug has the shape of an identifier: the third
  sample post has the slug \<open>deadbeefdeadbeefdeadbeef\<close>, the slug form resolves, and the
  call is answered 404 because only the identifier lookup is tried.
\<close>

theorem C5_slug_shaped_like_an_id_is_not_found:
  "findOne_slug sample_store ''deadbeefdeadbeefdeadbeef'' = Some hex_post
   \<and> resolves_by_slug sample_store ''deadbeefdeadbeefdeadbeef''
   \<and> getPost sample_store ''deadbeefdeadbeefdeadbeef'' =
       (Failure 404 ''Post not found'', sample_store)"
  by (simp add: getPost_lookup resolves_by_slug_def findOne_slug_def request_defs sample_defs)

section \<open>C4: the view counter\<close>



section \<open>C7: the content of a comment\<close>

text \<open>
  C7. \<open>addComment\<close> tests \<open>!content\<close> and does not trim. A content of three spaces is
  empty after trimming, and the handler does not answer it with 400, whatever the schema
  method does: for an identifier that no post has the answer is 404, and for the first
  sample post the content goes on to the schema method.
\<close>

theorem C7_blank_comment_is_not_refused:
  "trim ''   '' = []
   \<and> fst (addComment method sample_store bob (String ''   '') ''bbbbbbbbbbbbbbbbbbbbbbb9'')
       = Failure 404 ''Post not found''
   \<and> fst (addComment method sample_store bob (String ''   '') ''bbbbbbbbbbbbbbbbbbbbbbb1'')
       \<noteq> Failure 400 ''Comment content is required''"
proof -
  have t: "trim ''   '' = []"
    by (simp add: trim_def isWhiteSpace_def)
  have v: "truthy_value (String ''   '')"
    by (simp add: truthy_value_def)
  have miss: "findById sample_store ''bbbbbbbbbbbbbbbbbbbbbbb9'' = Inr None"
    by (simp add: findById_def request_defs sample_defs)
  have a: "fst (addComment method sample_store bob (String ''   '') ''bbbbbbbbbbbbbbbbbbbbbbb9'')
       = Failure 404 ''Post not found''"
    using v by (simp add: addComment_def miss)
  have b: "fst (addComment method sample_store bob (String ''   '') ''bbbbbbbbbbbbbbbbbbbbbbb1'')
       \<noteq> Failure 400 ''Comment content is required''"
    using v by (simp add: addComment_def findById_first_post split: sum.splits option.splits)
  show ?thesis using t a b by simp
qed

section \<open>C10: an update computes tags and the published flag from the body alone\<close>

text \<open>
  C10, as the code has it. Take an \<open>updatePost\<close> call by the author or an admin on a
  post that exists. When the body passes validation, the category casts to an identifier
  and the schema accepts the update, the call succeeds, and the stored post then has the
  tag list computed from the \<open>tags\<close> field of the body and is published exactly when
  the field \<open>isPublished\<close> is the string \<open>true\<close>: with \<open>tags\<close> omitted the tag list is
  empty, and with \<open>isPublished\<close> omitted or different from \<open>true\<close> the post is
  unpublished, whatever the post held before. In every other case the call does not
  succeed and the collection is left as it was; a body that fails validation is answered
  400.
\<close>

theorem C10_update_resets_tags_and_flag:
  assumes "findById store i = Inr (Some p)" and "\<not> not_authorized p u"
  shows "(postValidation b = [] \<and> ObjectId_isValid (field_text (body_category b))
            \<and> V (update_data p b f) \<longrightarrow>
          (\<exists>doc. updatePost V store u i b f = (Success 200 doc, save store doc)
             \<and> findById (save store doc) i = Inr (Some doc)
             \<and> tags doc = tags_of (body_tags b)
             \<and> isPublished doc = (body_isPublished b = Some ''true'')
             \<and> (body_tags b = None \<longrightarrow> tags doc = [])
             \<and> (body_isPublished b \<noteq> Some ''true'' \<longrightarrow> \<not> isPublished doc)))
     \<and> (\<not> (postValidation b = [] \<and> ObjectId_isValid (field_text (body_category b))
            \<and> V (update_data p b f)) \<longrightarrow>
          snd (updatePost V store u i b f) = store
          \<and> status (fst (updatePost V store u i b f)) \<noteq> Some 200)
     \<and> (postValidation b \<noteq> [] \<longrightarrow> status (fst (updatePost V store u i b f)) = Some 400)"
proof -
  let ?doc = "apply_update p (update_data p b f)"
  have c1: "postValidation b = [] \<and> ObjectId_isValid (field_text (body_category b))
            \<and> V (update_data p b f) \<longrightarrow>
          (\<exists>doc. updatePost V store u i b f = (Success 200 doc, save store doc)
             \<and> findById (save store doc) i = Inr (Some doc)
             \<and> tags doc = tags_of (body_tags b)
             \<and> isPublished doc = (body_isPublished b = Some ''true'')
             \<and> (body_tags b = None \<longrightarrow> tags doc = [])
             \<and> (body_isPublished b \<noteq> Some ''true'' \<longrightarrow> \<not> isPublished doc))"
  proof
    assume h: "postValidation b = [] \<and> ObjectId_isValid (field_text (body_category b))
            \<and> V (update_data p b f)"
    have run: "updatePost V store u i b f = (Success 200 ?doc, save store ?doc)"
      using assms h by (intro updatePost_accepted) simp_all
    have stored: "findById (save store ?doc) i = Inr (Some ?doc)"
      using assms(1) by (rule findById_save) (rule post_id_apply_update)
    have t: "tags ?doc = tags_of (body_tags b)"
      by (rule tags_apply_update)
    have t0: "body_tags b = None \<longrightarrow> tags ?doc = []"
      by (simp add: t tags_of_def)
    have f: "isPublished ?doc = (body_isPublished b = Some ''true'')"
      by (rule isPublished_apply_update)
    have f0: "body_isPublished b \<noteq> Some ''true'' \<longrightarrow> \<not> isPublished ?doc"
      by (simp add: f)
    show "\<exists>doc. updatePost V store u i b f = (Success 200 doc, save store doc)
             \<and> findById (save store doc) i = Inr (Some doc)
             \<and> tags doc = tags_of (body_tags b)
             \<and> isPublished doc = (body_isPublished b = Some ''true'')
             \<and> (body_tags b = None \<longrightarrow> tags doc = [])
             \<and> (body_isPublished b \<noteq> Some ''true'' \<longrightarrow> \<not> isPublished doc)"
      by (rule exI [of _ ?doc]) (rule conjI run stored t f t0 f0)+
  qed
  have c2: "\<not> (postValidation b = [] \<and> ObjectId_isValid (field_text (body_category b))
            \<and> V (update_data p b f)) \<longrightarrow>
          snd (updatePost V store u i b f) = store
          \<and> status (fst (updatePost V store u i b f)) \<noteq> Some 200"
    using assms by (intro impI updatePost_refused)
  have c3: "postValidation b \<noteq> [] \<longrightarrow> status (fst (updatePost V store u i b f)) = Some 400"
    by (simp add: updatePost_invalid)
  show ?thesis
    by (rule conjI [OF c1 conjI [OF c2 c3]])
qed

text \<open>
  The theorem on the sample store: Alice renames her published post, which has two
  tags, with a body that has neither \<open>tags\<close> nor \<open>isPublished\<close>; afterwards the post
  has no tags and is unpublished.
\<close>

theorem C10_update_resets_tags_and_flag_witness:
  "findById sample_store ''bbbbbbbbbbbbbbbbbbbbbbb1'' = Inr (Some first_post)
   \<and> author first_post = user_id alice
   \<and> tags first_post = [''react'', ''javascript''] \<and> isPublished first_post
   \<and> body_tags title_only_body = None \<and> body_isPublished title_only_body = None
   \<and> postValidation title_only_body = []
   \<and> map tags (snd (updatePost update_validators sample_store alice ''bbbbbbbbbbbbbbbbbbbbbbb1''
         title_only_body None)) = [[], [], []]
   \<and> map isPublished (snd (updatePost update_validators sample_store alice
         ''bbbbbbbbbbbbbbbbbbbbbbb1'' title_only_body None)) = [False, False, True]"
proof -
  let ?doc = "apply_update first_post (update_data first_post title_only_body None)"
  have a: "\<not> not_authorized first_post alice"
    by (simp add: not_authorized_def sample_defs)
  have c: "ObjectId_isValid (field_text (body_category title_only_body))"
    by (simp add: request_defs title_only_body_def)
  have v: "update_validators (update_data first_post title_only_body None)"
    by (simp add: update_validators_def update_data_def request_defs title_only_body_def
        first_post_def)
  have facts: "author first_post = user_id alice
     \<and> tags first_post = [''react'', ''javascript''] \<and> isPublished first_post
     \<and> body_tags title_only_body = None \<and> body_isPublished title_only_body = None"
    by (simp add: sample_defs title_only_body_def)
  have others: "post_id draft_post \<noteq> post_id first_post \<and> post_id hex_post \<noteq> post_id first_post
     \<and> tags draft_post = [] \<and> tags hex_post = [] \<and> \<not> isPublished draft_post \<and> isPublished hex_post"
    by (simp add: sample_defs)
  have stored: "save sample_store ?doc = [?doc, draft_post, hex_post]"
    using others by (simp add: save_def sample_store_def post_id_apply_update)
  have run: "updatePost update_validators sample_store alice ''bbbbbbbbbbbbbbbbbbbbbbb1''
         title_only_body None = (Success 200 ?doc, [?doc, draft_post, hex_post])"
    using a c v stored
    by (simp add: updatePost_found [OF findById_first_post postValidation_title_only]
        update_data_def)
  have doc: "tags ?doc = [] \<and> \<not> isPublished ?doc"
    using facts by (simp add: tags_apply_update isPublished_apply_update tags_of_def)
  have m1: "map tags (snd (updatePost update_validators sample_store alice
      ''bbbbbbbbbbbbbbbbbbbbbbb1'' title_only_body None)) = [[], [], []]"
    using others doc by (simp add: run)
  have m2: "map isPublished (snd (updatePost update_validators sample_store alice
         ''bbbbbbbbbbbbbbbbbbbbbbb1'' title_only_body None)) = [False, False, True]"
    using others doc by (simp add: run)
  show ?thesis
    using C10_update_resets_tags_and_flag [where store = sample_store
        and i = "''bbbbbbbbbbbbbbbbbbbbbbb1''" and p = first_post and u = alice
        and b = title_only_body and V = update_validators and f = None]
      findById_first_post a postValidation_title_only c v facts m1 m2
    by blast
qed

text \<open>
  The claim as stated fails for an authorized call that does not pass validation:
  Alice's update of her post with an empty body, which has neither \<open>tags\<close> nor
  \<open>isPublished\<close>, is answered 400, and the post keeps its two tags and stays
  published.
\<close>

theorem C10_invalid_update_by_author_changes_nothing:
  "findById sample_store ''bbbbbbbbbbbbbbbbbbbbbbb1'' = Inr (Some first_post)
   \<and> author first_post = user_id alice
   \<and> body_tags blank_body = None \<and> body_isPublished blank_body = None
   \<and> status (fst (updatePost update_validators sample_store alice ''bbbbbbbbbbbbbbbbbbbbbbb1''
         blank_body None)) = Some 400
   \<and> map tags (snd (updatePost update_validators sample_store alice ''bbbbbbbbbbbbbbbbbbbbbbb1''
         blank_body None)) = [[''react'', ''javascript''], [], []]
   \<and> map isPublished (snd (updatePost update_validators sample_store alice
         ''bbbbbbbbbbbbbbbbbbbbbbb1'' blank_body None)) = [True, False, True]"
proof -
  have run: "updatePost update_validators sample_store alice ''bbbbbbbbbbbbbbbbbbbbbbb1''
      blank_body None = (ValidationErrors (postValidation blank_body), sample_store)"
    by (rule updatePost_invalid) (simp add: postValidation_blank)
  have facts: "author first_post = user_id alice
      \<and> body_tags blank_body = None \<and> body_isPublished blank_body = None"
    by (simp add: sample_defs blank_body_def)
  have st: "map tags sample_store = [[''react'', ''javascript''], [], []]
      \<and> map isPublished sample_store = [True, False, True]"
    by (simp add: sample_defs)
  show ?thesis
    using findById_first_post facts st by (simp add: run)
qed

section \<open>Lemmas about listing and search\<close>

lemma set_newest_first: "set (newest_first ps) = set ps"
  by (simp add: newest_first_def)

lemma sorted_newest_first: "sorted_wrt (\<lambda>a b. createdAt b \<le> createdAt a) (newest_first ps)"
proof -
  have "sorted (map (\<lambda>p. - createdAt p) (newest_first ps))"
    unfolding newest_first_def by (rule sorted_sort_key)
  then show ?thesis by (simp add: sorted_map)
qed

lemma exact_Num: "exact n = Num k \<longleftrightarrow> k = n \<and> \<bar>n\<bar> \<le> max_exact"
  by (auto simp: exact_def)

lemma skip_of_Num:
  "page_of q = Num pg \<Longrightarrow> limit_of q = Num lm \<Longrightarrow>
     skip_of q = Num sk \<longleftrightarrow> sk = (pg - 1) * lm \<and> \<bar>(pg - 1) * lm\<bar> \<le> max_exact"
  by (simp add: skip_of_def exact_Num)

lemma pages_of_Num:
  "pages_of c lm = Num k \<longleftrightarrow> k = ceil_div c lm \<and> c + \<bar>lm\<bar> \<le> max_exact"
  by (auto simp: pages_of_def)

text \<open>The answer of \<open>getPosts\<close> once the filter is built and the numbers are known.\<close>

lemma getPosts_numbers:
  assumes "search_filter regexp q = Inr cond"
    and "\<not> (truthy (q_category q) \<and> \<not> ObjectId_isValid (field_text (q_category q)))"
    and "page_of q = Num pg" and "limit_of q = Num lm"
  shows "getPosts regexp store q =
     (if \<bar>(pg - 1) * lm\<bar> \<le> max_exact
      then if (pg - 1) * lm < 0 then Next MongoServerError
           else if int (length (filter (posts_filter (q_category q) cond) store)) + \<bar>lm\<bar>
                     \<le> max_exact
           then Success 200
                  \<lparr> data = take (nat \<bar>lm\<bar>) (drop (nat ((pg - 1) * lm))
                       (newest_first (filter (posts_filter (q_category q) cond) store))),
                    page = pg, limit = lm,
                    total = int (length (filter (posts_filter (q_category q) cond) store)),
                    pages = ceil_div
                      (int (length (filter (posts_filter (q_category q) cond) store))) lm \<rparr>
           else Next NumberNotModelled
      else Next NumberNotModelled)"
  using assms(2)
  by (simp add: getPosts_def assms(1,3,4) skip_of_def exact_def pages_of_def Let_def)

lemma or_default_cases:
  "d \<noteq> 0 \<Longrightarrow> or_default v d = Inexact \<or> (\<exists>k. k \<noteq> 0 \<and> or_default v d = Num k)"
  by (cases v) (simp_all add: or_default_def)

lemma getPosts_Success:
  assumes "getPosts regexp store q = Success n r"
  shows "\<exists>cond. search_filter regexp q = Inr cond \<and> n = 200
       \<and> page_of q = Num (page r) \<and> limit_of q = Num (limit r)
       \<and> skip_of q = Num ((page r - 1) * limit r) \<and> 0 \<le> (page r - 1) * limit r
       \<and> data r = take (nat \<bar>limit r\<bar>) (drop (nat ((page r - 1) * limit r))
                (newest_first (filter (posts_filter (q_category q) cond) store)))
       \<and> total r = int (length (filter (posts_filter (q_category q) cond) store))
       \<and> pages r = ceil_div (total r) (limit r)"
proof -
  obtain cond where c: "search_filter regexp q = Inr cond"
    using assms by (cases "search_filter regexp q") (simp_all add: getPosts_def)
  have cat: "\<not> (truthy (q_category q) \<and> \<not> ObjectId_isValid (field_text (q_category q)))"
    using assms by (auto simp add: getPosts_def c split: if_splits)
  obtain pg where pg: "page_of q = Num pg"
    using assms cat by (cases "page_of q") (simp_all add: getPosts_def c Let_def)
  obtain lm where lm: "limit_of q = Num lm"
    using assms cat by (cases "limit_of q") (simp_all add: getPosts_def c pg Let_def)
  note run = getPosts_numbers [OF c cat pg lm, of store]
  have b: "\<bar>(pg - 1) * lm\<bar> \<le> max_exact" and nn: "\<not> (pg - 1) * lm < 0"
    and pb: "int (length (filter (posts_filter (q_category q) cond) store)) + \<bar>lm\<bar> \<le> max_exact"
    using assms unfolding run by (simp_all split: if_splits)
  have r: "r = \<lparr> data = take (nat \<bar>lm\<bar>) (drop (nat ((pg - 1) * lm))
                       (newest_first (filter (posts_filter (q_category q) cond) store))),
                    page = pg, limit = lm,
                    total = int (length (filter (posts_filter (q_category q) cond) store)),
                    pages = ceil_div
                      (int (length (filter (posts_filter (q_category q) cond) store))) lm \<rparr>"
    and n: "n = 200"
    using assms b nn pb unfolding run by simp_all
  have sk: "skip_of q = Num ((pg - 1) * lm)"
    using b by (simp add: skip_of_Num [OF pg lm])
  show ?thesis
    using c n pg lm sk nn by (intro exI [of _ cond]) (simp add: r)
qed

lemma searchPosts_Success:
  "searchPosts regexp store query = Success n ps \<Longrightarrow>
     \<exists>m. n = 200 \<and>
       ps = take 20 (newest_first (filter (\<lambda>p. isPublished p \<and> search_matches m p) store))"
  by (auto simp add: searchPosts_def split: sum.splits if_splits)

lemma match_here_prefix: "match_here t s \<longleftrightarrow> prefix (map toLower t) (map toLower s)"
proof (induction t arbitrary: s)
  case Nil
  then show ?case by simp
next
  case (Cons a t)
  then show ?case by (cases s) auto
qed

lemma regex_test_sublist: "regex_test t s \<longleftrightarrow> sublist (map toLower t) (map toLower s)"
proof (induction s)
  case Nil
  then show ?case by (cases t) simp_all
next
  case (Cons c s)
  have "regex_test t (c # s) \<longleftrightarrow> match_here t (c # s) \<or> regex_test t s"
    by simp
  also have "\<dots> \<longleftrightarrow> prefix (map toLower t) (map toLower (c # s))
      \<or> sublist (map toLower t) (map toLower s)"
    by (simp only: match_here_prefix Cons.IH)
  also have "\<dots> \<longleftrightarrow> sublist (map toLower t) (map toLower (c # s))"
    by (simp add: sublist_Cons_right)
  finally show ?case .
qed

lemma search_matches_literal: "search_matches (regex_test t) p \<longleftrightarrow> literal_match t p"
  by (simp add: search_matches_def literal_match_def contains_ci_def regex_test_sublist
      list_ex_iff)

lemma balanced_no_paren: "\<forall>c\<in>set t. \<not> isParen c \<Longrightarrow> balanced d t = (d = 0)"
  by (induction t arbitrary: d) (auto simp: isParen_def)

lemma ordinary_not_paren: "ordinary c \<Longrightarrow> \<not> isParen c"
  by (auto simp: ordinary_def isMeta_def isParen_def)

lemma RegExp_i_literal:
  assumes "list_all ordinary t"
  shows "RegExp_i t = Inr (regex_test t)"
proof -
  have np: "\<forall>c\<in>set t. \<not> isParen c"
    using assms by (auto simp: list_all_iff ordinary_not_paren)
  have f: "filter (\<lambda>c. \<not> isParen c) t = t"
    by (rule filter_True) (use np in auto)
  have "list_all (\<lambda>c. ordinary c \<or> isParen c) t"
    using assms by (auto simp: list_all_iff)
  then show ?thesis
    by (simp add: RegExp_i_def balanced_no_paren [OF np] f)
qed

lemma ceil_div_ceiling: "ceil_div a b = \<lceil>real_of_int a / real_of_int b\<rceil>"
proof -
  have "\<lceil>real_of_int a / real_of_int b\<rceil> = - \<lfloor>real_of_int (- a) / real_of_int b\<rfloor>"
    by (simp add: ceiling_def)
  also have "\<dots> = - ((- a) div b)"
    by (simp only: floor_divide_of_int_eq)
  finally show ?thesis by (simp add: ceil_div_def)
qed

lemmas listing_defs = getPosts_def search_filter_def truthy_def field_text_def skip_of_def
  page_of_def limit_of_def parseInt_def or_default_def exact_def max_exact_def pages_of_def
  posts_filter_def search_matches_def newest_first_def digit_of_def digits_value_def
  isWhiteSpace_def ceil_div_def Let_def

lemma RegExp_i_hello: "RegExp_i ''hello'' = Inr (regex_test ''hello'')"
  by (rule RegExp_i_literal) (simp add: ordinary_def isMeta_def)

lemma getPosts_no_query:
  "getPosts RegExp_i sample_store no_query =
     Success 200 \<lparr> data = [hex_post, first_post], page = 1, limit = 10, total = 2, pages = 1 \<rparr>"
  by (simp add: listing_defs no_query_def sample_store_def first_post_def draft_post_def
      hex_post_def)

lemma searchPosts_hello:
  "searchPosts RegExp_i sample_store (Some ''hello'') = Success 200 [first_post]"
  by (simp add: searchPosts_def truthy_def field_text_def RegExp_i_hello
      search_matches_def newest_first_def toLower_def
      sample_store_def first_post_def draft_post_def hex_post_def)

lemma getPosts_second_page:
  "getPosts RegExp_i sample_store
       \<lparr> q_page = Some ''2'', q_limit = Some ''1'', q_category = None, q_search = None \<rparr> =
     Success 200 \<lparr> data = [first_post], page = 2, limit = 1, total = 2, pages = 2 \<rparr>"
  by (simp add: listing_defs sample_store_def first_post_def draft_post_def hex_post_def)

lemma or_default_Num: "or_default (Num k) d = (if k = 0 then Num d else Num k)"
  by (simp add: or_default_def)

lemma or_default_not_zero: "d \<noteq> 0 \<Longrightarrow> or_default v d \<noteq> Num 0 \<and> or_default v d \<noteq> NaN"
  by (cases v) (simp_all add: or_default_def)

lemma parseInt_absent: "parseInt None = NaN"
  by (simp add: parseInt_def)

lemma search_filter_term:
  "needle \<noteq> [] \<Longrightarrow>
     search_filter regexp (q \<lparr> q_search := Some needle \<rparr>) =
       map_sum id search_matches (regexp needle)"
  by (simp add: search_filter_def truthy_def field_text_def)

lemma getPosts_search_Success:
  assumes "needle \<noteq> []" and "regexp needle = Inr m"
    and "getPosts regexp store (q \<lparr> q_search := Some needle \<rparr>) = Success n r"
  shows "data r = take (nat \<bar>limit r\<bar>) (drop (nat ((page r - 1) * limit r))
            (newest_first (filter (posts_filter (q_category q) (search_matches m)) store)))
       \<and> total r = int (length (filter (posts_filter (q_category q) (search_matches m)) store))"
proof -
  have "search_filter regexp (q \<lparr> q_search := Some needle \<rparr>) = Inr (search_matches m)"
    using assms(1,2) by (simp add: search_filter_term)
  then show ?thesis
    using getPosts_Success [OF assms(3)] by auto
qed

lemma RegExp_i_group: "RegExp_i ''(x)'' = Inr (regex_test ''x'')"
  by (simp add: RegExp_i_def ordinary_def isMeta_def isParen_def)

lemma getPosts_group:
  "getPosts RegExp_i sample_store (no_query \<lparr> q_search := Some ''(x)'' \<rparr>) =
     Success 200 \<lparr> data = [hex_post], page = 1, limit = 10, total = 1, pages = 1 \<rparr>"
  by (simp add: listing_defs RegExp_i_group no_query_def toLower_def sample_store_def
      first_post_def draft_post_def hex_post_def)

section \<open>C2: only published posts are listed or found\<close>

text \<open>
  C2. Whatever the regular-expression engine does with the search term, every post in
  the data of a successful \<open>getPosts\<close> answer is a published post of the collection; and
  every post in a successful \<open>searchPosts\<close> answer is a published post of the
  collection, the answer holds at most 20 posts, and they are ordered by creation time,
  newest first.
\<close>

theorem C2_public_results_are_published:
  "(getPosts regexp store q = Success n r \<longrightarrow>
      (\<forall>p\<in>set (data r). isPublished p \<and> p \<in> set store))
   \<and> (searchPosts regexp store query = Success n' ps \<longrightarrow>
        (\<forall>p\<in>set ps. isPublished p \<and> p \<in> set store) \<and> length ps \<le> 20
        \<and> sorted_wrt (\<lambda>a b. createdAt b \<le> createdAt a) ps)"
proof (intro conjI impI)
  assume "getPosts regexp store q = Success n r"
  then obtain cond where "data r = take (nat \<bar>limit r\<bar>) (drop (nat ((page r - 1) * limit r))
      (newest_first (filter (posts_filter (q_category q) cond) store)))"
    by (auto dest: getPosts_Success)
  then have "set (data r) \<subseteq> set (filter (posts_filter (q_category q) cond) store)"
    using set_take_subset set_drop_subset set_newest_first by (metis subset_trans)
  then show "\<forall>p\<in>set (data r). isPublished p \<and> p \<in> set store"
    by (auto simp: posts_filter_def)
next
  assume "searchPosts regexp store query = Success n' ps"
  then obtain m where ps:
    "ps = take 20 (newest_first (filter (\<lambda>p. isPublished p \<and> search_matches m p) store))"
    by (auto dest: searchPosts_Success)
  have "set ps \<subseteq> set (filter (\<lambda>p. isPublished p \<and> search_matches m p) store)"
    unfolding ps using set_take_subset set_newest_first by metis
  then show "\<forall>p\<in>set ps. isPublished p \<and> p \<in> set store"
    by auto
  show "length ps \<le> 20"
    by (simp add: ps)
  show "sorted_wrt (\<lambda>a b. createdAt b \<le> createdAt a) ps"
    unfolding ps by (intro sorted_wrt_take sorted_newest_first)
qed

text \<open>
  The theorem on the sample store: the listing holds the two published posts, newest
  first; the search for \<open>hello\<close> returns the published first post and not the draft,
  whose content matches as well.
\<close>

theorem C2_public_results_are_published_witness:
  "getPosts RegExp_i sample_store no_query =
     Success 200 \<lparr> data = [hex_post, first_post], page = 1, limit = 10, total = 2, pages = 1 \<rparr>
   \<and> isPublished hex_post \<and> isPublished first_post \<and> \<not> isPublished draft_post
   \<and> regex_test ''hello'' (content draft_post)
   \<and> searchPosts RegExp_i sample_store (Some ''hello'') = Success 200 [first_post]"
proof -
  have p: "isPublished hex_post \<and> isPublished first_post \<and> \<not> isPublished draft_post"
    by (simp add: first_post_def draft_post_def hex_post_def)
  have m: "regex_test ''hello'' (content draft_post)"
    by (simp add: draft_post_def toLower_def)
  show ?thesis
    using C2_public_results_are_published [where regexp = RegExp_i and store = sample_store
        and q = no_query and n = 200 and n' = 200 and query = "Some ''hello''"
        and ps = "[first_post]"
        and r = "\<lparr> data = [hex_post, first_post], page = 1, limit = 10, total = 2, pages = 1 \<rparr>"]
      getPosts_no_query searchPosts_hello p m
    by blast
qed

section \<open>C8: the pagination values\<close>

text \<open>
  C8, as the code has it, for the numbers that a double holds exactly. The page is 1 and
  the limit is 10 when the parameter is absent, when \<open>parseInt\<close> finds no integer at
  its start, and when that integer is zero; otherwise they are the integer that
  \<open>parseInt\<close> reads, which can be negative and which ignores what follows the digits.
  Neither is ever zero. In a successful answer the reported page and limit are those
  values, the number of skipped posts is \<open>(page - 1) * limit\<close> and is not negative, the
  data are the posts of the collection that pass the filter, newest first, after that
  many of them and cut to the limit, the total is the number of posts that pass the
  filter, and the reported number of pages is the ceiling of the total divided by the
  limit. The answer is successful whenever the filter is built, the category casts, the
  skip is not negative and the numbers are within the exact range.
\<close>

theorem C8_pagination_values:
  "(q_page q = None \<longrightarrow> page_of q = Num 1) \<and> (q_limit q = None \<longrightarrow> limit_of q = Num 10)
   \<and> (parseInt (q_page q) = NaN \<or> parseInt (q_page q) = Num 0 \<longrightarrow> page_of q = Num 1)
   \<and> (parseInt (q_limit q) = NaN \<or> parseInt (q_limit q) = Num 0 \<longrightarrow> limit_of q = Num 10)
   \<and> (parseInt (q_page q) = Num k \<and> k \<noteq> 0 \<longrightarrow> page_of q = Num k)
   \<and> (parseInt (q_limit q) = Num k \<and> k \<noteq> 0 \<longrightarrow> limit_of q = Num k)
   \<and> page_of q \<noteq> Num 0 \<and> page_of q \<noteq> NaN \<and> limit_of q \<noteq> Num 0 \<and> limit_of q \<noteq> NaN
   \<and> (getPosts regexp store q = Success n r \<longrightarrow>
        page_of q = Num (page r) \<and> limit_of q = Num (limit r)
        \<and> skip_of q = Num ((page r - 1) * limit r) \<and> 0 \<le> (page r - 1) * limit r
        \<and> (\<exists>cond. search_filter regexp q = Inr cond
              \<and> total r = int (length (filter (posts_filter (q_category q) cond) store))
              \<and> data r = take (nat \<bar>limit r\<bar>) (drop (nat ((page r - 1) * limit r))
                   (newest_first (filter (posts_filter (q_category q) cond) store))))
        \<and> pages r = \<lceil>real_of_int (total r) / real_of_int (limit r)\<rceil>)
   \<and> (search_filter regexp q = Inr cond
        \<and> \<not> (truthy (q_category q) \<and> \<not> ObjectId_isValid (field_text (q_category q)))
        \<and> page_of q = Num pg \<and> limit_of q = Num lm
        \<and> 0 \<le> (pg - 1) * lm \<and> (pg - 1) * lm \<le> max_exact
        \<and> int (length store) + \<bar>lm\<bar> \<le> max_exact \<longrightarrow>
        (\<exists>r. getPosts regexp store q = Success 200 r \<and> page r = pg \<and> limit r = lm))"
proof -
  have d1: "q_page q = None \<longrightarrow> page_of q = Num 1"
    by (simp add: page_of_def parseInt_absent or_default_def)
  have d2: "q_limit q = None \<longrightarrow> limit_of q = Num 10"
    by (simp add: limit_of_def parseInt_absent or_default_def)
  have d3: "parseInt (q_page q) = NaN \<or> parseInt (q_page q) = Num 0 \<longrightarrow> page_of q = Num 1"
    by (auto simp add: page_of_def or_default_def)
  have d4: "parseInt (q_limit q) = NaN \<or> parseInt (q_limit q) = Num 0 \<longrightarrow> limit_of q = Num 10"
    by (auto simp add: limit_of_def or_default_def)
  have d5: "parseInt (q_page q) = Num k \<and> k \<noteq> 0 \<longrightarrow> page_of q = Num k"
    by (simp add: page_of_def or_default_def)
  have d6: "parseInt (q_limit q) = Num k \<and> k \<noteq> 0 \<longrightarrow> limit_of q = Num k"
    by (simp add: limit_of_def or_default_def)
  have nz: "page_of q \<noteq> Num 0 \<and> page_of q \<noteq> NaN \<and> limit_of q \<noteq> Num 0 \<and> limit_of q \<noteq> NaN"
    by (simp add: page_of_def limit_of_def or_default_not_zero)
  have resp: "getPosts regexp store q = Success n r \<longrightarrow>
        page_of q = Num (page r) \<and> limit_of q = Num (limit r)
        \<and> skip_of q = Num ((page r - 1) * limit r) \<and> 0 \<le> (page r - 1) * limit r
        \<and> (\<exists>cond. search_filter regexp q = Inr cond
              \<and> total r = int (length (filter (posts_filter (q_category q) cond) store))
              \<and> data r = take (nat \<bar>limit r\<bar>) (drop (nat ((page r - 1) * limit r))
                   (newest_first (filter (posts_filter (q_category q) cond) store))))
        \<and> pages r = \<lceil>real_of_int (total r) / real_of_int (limit r)\<rceil>"
  proof
    assume "getPosts regexp store q = Success n r"
    from getPosts_Success [OF this] obtain c where
      c: "search_filter regexp q = Inr c"
      and pg: "page_of q = Num (page r)" and lm: "limit_of q = Num (limit r)"
      and sk: "skip_of q = Num ((page r - 1) * limit r)" and nn: "0 \<le> (page r - 1) * limit r"
      and dt: "data r = take (nat \<bar>limit r\<bar>) (drop (nat ((page r - 1) * limit r))
                (newest_first (filter (posts_filter (q_category q) c) store)))"
      and tt: "total r = int (length (filter (posts_filter (q_category q) c) store))"
      and pp: "pages r = ceil_div (total r) (limit r)"
      by blast
    have ex: "\<exists>cond. search_filter regexp q = Inr cond
              \<and> total r = int (length (filter (posts_filter (q_category q) cond) store))
              \<and> data r = take (nat \<bar>limit r\<bar>) (drop (nat ((page r - 1) * limit r))
                   (newest_first (filter (posts_filter (q_category q) cond) store)))"
      using c tt dt by blast
    have pc: "pages r = \<lceil>real_of_int (total r) / real_of_int (limit r)\<rceil>"
      unfolding pp by (rule ceil_div_ceiling)
    show "page_of q = Num (page r) \<and> limit_of q = Num (limit r)
        \<and> skip_of q = Num ((page r - 1) * limit r) \<and> 0 \<le> (page r - 1) * limit r
        \<and> (\<exists>cond. search_filter regexp q = Inr cond
              \<and> total r = int (length (filter (posts_filter (q_category q) cond) store))
              \<and> data r = take (nat \<bar>limit r\<bar>) (drop (nat ((page r - 1) * limit r))
                   (newest_first (filter (posts_filter (q_category q) cond) store))))
        \<and> pages r = \<lceil>real_of_int (total r) / real_of_int (limit r)\<rceil>"
      by (rule conjI pg lm sk nn ex pc)+
  qed
  have succ: "search_filter regexp q = Inr cond
        \<and> \<not> (truthy (q_category q) \<and> \<not> ObjectId_isValid (field_text (q_category q)))
        \<and> page_of q = Num pg \<and> limit_of q = Num lm
        \<and> 0 \<le> (pg - 1) * lm \<and> (pg - 1) * lm \<le> max_exact
        \<and> int (length store) + \<bar>lm\<bar> \<le> max_exact \<longrightarrow>
        (\<exists>r. getPosts regexp store q = Success 200 r \<and> page r = pg \<and> limit r = lm)"
  proof
    assume h: "search_filter regexp q = Inr cond
        \<and> \<not> (truthy (q_category q) \<and> \<not> ObjectId_isValid (field_text (q_category q)))
        \<and> page_of q = Num pg \<and> limit_of q = Num lm
        \<and> 0 \<le> (pg - 1) * lm \<and> (pg - 1) * lm \<le> max_exact
        \<and> int (length store) + \<bar>lm\<bar> \<le> max_exact"
    have c: "search_filter regexp q = Inr cond"
      and cat: "\<not> (truthy (q_category q) \<and> \<not> ObjectId_isValid (field_text (q_category q)))"
      and pg: "page_of q = Num pg" and lm: "limit_of q = Num lm"
      using h by simp_all
    have "length (filter (posts_filter (q_category q) cond) store) \<le> length store"
      by (rule length_filter_le)
    then have b: "int (length (filter (posts_filter (q_category q) cond) store)) + \<bar>lm\<bar>
        \<le> max_exact"
      using h by linarith
    have a: "\<bar>(pg - 1) * lm\<bar> \<le> max_exact" and nn: "\<not> (pg - 1) * lm < 0"
      using h by simp_all
    show "\<exists>r. getPosts regexp store q = Success 200 r \<and> page r = pg \<and> limit r = lm"
      unfolding getPosts_numbers [OF c cat pg lm] using a nn b by simp
  qed
  show ?thesis
    by (rule conjI d1 d2 d3 d4 d5 d6 nz [THEN conjunct1] nz [THEN conjunct2, THEN conjunct1]
        nz [THEN conjunct2, THEN conjunct2, THEN conjunct1]
        nz [THEN conjunct2, THEN conjunct2, THEN conjunct2] resp succ)+
qed

text \<open>
  The theorem on the sample store: with no parameters the page is 1 and the limit 10;
  page 2 with limit 1 skips one of the two published posts and reports two pages.
\<close>

theorem C8_pagination_values_witness:
  "q_page no_query = None \<and> q_limit no_query = None \<and> page_of no_query = Num 1
   \<and> limit_of no_query = Num 10
   \<and> parseInt (Some ''abc'') = NaN \<and> parseInt (Some ''0'') = Num 0
   \<and> parseInt (Some ''2'') = Num 2
   \<and> getPosts RegExp_i sample_store
       \<lparr> q_page = Some ''2'', q_limit = Some ''1'', q_category = None, q_search = None \<rparr> =
     Success 200 \<lparr> data = [first_post], page = 2, limit = 1, total = 2, pages = 2 \<rparr>
   \<and> (2::int) = \<lceil>real_of_int 2 / real_of_int 1\<rceil>"
proof -
  have a: "q_page no_query = None \<and> q_limit no_query = None"
    by (simp add: no_query_def)
  have p: "parseInt (Some ''abc'') = NaN \<and> parseInt (Some ''0'') = Num 0
      \<and> parseInt (Some ''2'') = Num 2"
    by (simp add: parseInt_def digit_of_def digits_value_def isWhiteSpace_def exact_def
        max_exact_def Let_def)
  have c: "(2::int) = \<lceil>real_of_int 2 / real_of_int 1\<rceil>"
    by simp
  note inst = C8_pagination_values [where q = no_query and store = sample_store and k = 1
        and n = 200 and regexp = RegExp_i and pg = 1 and lm = 10 and cond = "\<lambda>p. True"
        and r = "\<lparr> data = [], page = 1, limit = 10, total = 0, pages = 0 \<rparr>"]
  have d1: "page_of no_query = Num 1"
    using inst [THEN conjunct1] a by simp
  have d2: "limit_of no_query = Num 10"
    using inst [THEN conjunct2, THEN conjunct1] a by simp
  show ?thesis
    using a p c d1 d2 getPosts_second_page by simp
qed

text \<open>
  The claim as stated fails twice: the page parameter \<open>-3\<close> gives the page \<open>-3\<close>, below
  1; and the malformed parameter \<open>2abc\<close> gives the page 2, not the default.
\<close>

theorem C8_page_can_be_negative:
  "page_of \<lparr> q_page = Some ''-3'', q_limit = None, q_category = None, q_search = None \<rparr>
     = Num (- 3)
   \<and> getPosts RegExp_i sample_store
       \<lparr> q_page = Some ''2abc'', q_limit = Some ''1'', q_category = None, q_search = None \<rparr> =
     Success 200 \<lparr> data = [first_post], page = 2, limit = 1, total = 2, pages = 2 \<rparr>"
  by (simp add: listing_defs sample_store_def first_post_def draft_post_def hex_post_def)

section \<open>C9: the search term is a regular expression\<close>

text \<open>
  C9, as the code has it. Both handlers compile the search term as a regular expression.
  When the engine throws on the term, \<open>searchPosts\<close> and \<open>getPosts\<close> pass the error on;
  when it compiles, the posts that \<open>searchPosts\<close> finds and the posts that \<open>getPosts\<close>
  lists and counts are those that pass the rest of the filter and that the expression
  matches in the title, the content or a tag. A term of ordinary characters and
  parentheses whose parentheses are not balanced is a syntax error. For a term of
  ordinary characters alone, which are the ASCII characters other than the
  metacharacters, the posts that the two handlers match are those where the term occurs,
  up to case, in the title, the content or a tag.
\<close>

theorem C9_search_term_is_a_pattern:
  "(needle \<noteq> [] \<and> regexp needle = Inl e \<longrightarrow>
      searchPosts regexp store (Some needle) = Next e
      \<and> getPosts regexp store (q \<lparr> q_search := Some needle \<rparr>) = Next e)
   \<and> (needle \<noteq> [] \<and> regexp needle = Inr m \<longrightarrow>
        searchPosts regexp store (Some needle) =
          Success 200
            (take 20 (newest_first (filter (\<lambda>p. isPublished p \<and> search_matches m p) store)))
        \<and> (getPosts regexp store (q \<lparr> q_search := Some needle \<rparr>) = Success n r \<longrightarrow>
             data r = take (nat \<bar>limit r\<bar>) (drop (nat ((page r - 1) * limit r))
               (newest_first (filter (posts_filter (q_category q) (search_matches m)) store)))
             \<and> total r =
                 int (length (filter (posts_filter (q_category q) (search_matches m)) store))))
   \<and> (list_all (\<lambda>c. ordinary c \<or> isParen c) needle \<and> \<not> balanced 0 needle \<longrightarrow>
        RegExp_i needle = Inl SyntaxError)
   \<and> (needle \<noteq> [] \<and> list_all ordinary needle \<longrightarrow>
      searchPosts RegExp_i store (Some needle) =
        Success 200
          (take 20 (newest_first (filter (\<lambda>p. isPublished p \<and> literal_match needle p) store)))
      \<and> (getPosts RegExp_i store (q \<lparr> q_search := Some needle \<rparr>) = Success n r \<longrightarrow>
           data r = take (nat \<bar>limit r\<bar>) (drop (nat ((page r - 1) * limit r))
               (newest_first (filter (posts_filter (q_category q) (literal_match needle)) store)))
           \<and> total r =
               int (length (filter (posts_filter (q_category q) (literal_match needle)) store))))"
proof -
  have c1: "needle \<noteq> [] \<and> regexp needle = Inl e \<longrightarrow>
      searchPosts regexp store (Some needle) = Next e
      \<and> getPosts regexp store (q \<lparr> q_search := Some needle \<rparr>) = Next e"
    by (simp add: searchPosts_def getPosts_def search_filter_term truthy_def field_text_def)
  have c2: "needle \<noteq> [] \<and> regexp needle = Inr m \<longrightarrow>
        searchPosts regexp store (Some needle) =
          Success 200
            (take 20 (newest_first (filter (\<lambda>p. isPublished p \<and> search_matches m p) store)))
        \<and> (getPosts regexp store (q \<lparr> q_search := Some needle \<rparr>) = Success n r \<longrightarrow>
             data r = take (nat \<bar>limit r\<bar>) (drop (nat ((page r - 1) * limit r))
               (newest_first (filter (posts_filter (q_category q) (search_matches m)) store)))
             \<and> total r =
                 int (length (filter (posts_filter (q_category q) (search_matches m)) store)))"
  proof (intro impI conjI)
    assume h: "needle \<noteq> [] \<and> regexp needle = Inr m"
    then show "searchPosts regexp store (Some needle) =
          Success 200
            (take 20 (newest_first (filter (\<lambda>p. isPublished p \<and> search_matches m p) store)))"
      by (simp add: searchPosts_def truthy_def field_text_def)
    assume g: "getPosts regexp store (q \<lparr> q_search := Some needle \<rparr>) = Success n r"
    have ne: "needle \<noteq> []" and rm: "regexp needle = Inr m"
      using h by simp_all
    note s = getPosts_search_Success [OF ne rm g]
    show "data r = take (nat \<bar>limit r\<bar>) (drop (nat ((page r - 1) * limit r))
               (newest_first (filter (posts_filter (q_category q) (search_matches m)) store)))"
      by (rule s [THEN conjunct1])
    show "total r =
        int (length (filter (posts_filter (q_category q) (search_matches m)) store))"
      by (rule s [THEN conjunct2])
  qed
  have c3: "list_all (\<lambda>c. ordinary c \<or> isParen c) needle \<and> \<not> balanced 0 needle \<longrightarrow>
        RegExp_i needle = Inl SyntaxError"
    by (simp add: RegExp_i_def)
  have c4: "needle \<noteq> [] \<and> list_all ordinary needle \<longrightarrow>
      searchPosts RegExp_i store (Some needle) =
        Success 200
          (take 20 (newest_first (filter (\<lambda>p. isPublished p \<and> literal_match needle p) store)))
      \<and> (getPosts RegExp_i store (q \<lparr> q_search := Some needle \<rparr>) = Success n r \<longrightarrow>
           data r = take (nat \<bar>limit r\<bar>) (drop (nat ((page r - 1) * limit r))
               (newest_first (filter (posts_filter (q_category q) (literal_match needle)) store)))
           \<and> total r =
               int (length (filter (posts_filter (q_category q) (literal_match needle)) store)))"
  proof (intro impI conjI)
    assume h: "needle \<noteq> [] \<and> list_all ordinary needle"
    then have c: "RegExp_i needle = Inr (regex_test needle)"
      by (simp add: RegExp_i_literal)
    have sm: "search_matches (regex_test needle) = literal_match needle"
      by (rule ext) (rule search_matches_literal)
    show "searchPosts RegExp_i store (Some needle) =
        Success 200
          (take 20 (newest_first (filter (\<lambda>p. isPublished p \<and> literal_match needle p) store)))"
      using h by (simp add: searchPosts_def truthy_def field_text_def c search_matches_literal)
    assume g: "getPosts RegExp_i store (q \<lparr> q_search := Some needle \<rparr>) = Success n r"
    have ne: "needle \<noteq> []"
      using h by simp
    note s = getPosts_search_Success [OF ne c g, unfolded sm]
    show "data r = take (nat \<bar>limit r\<bar>) (drop (nat ((page r - 1) * limit r))
               (newest_first (filter (posts_filter (q_category q) (literal_match needle)) store)))"
      by (rule s [THEN conjunct1])
    show "total r =
        int (length (filter (posts_filter (q_category q) (literal_match needle)) store))"
      by (rule s [THEN conjunct2])
  qed
  show ?thesis
    by (rule conjI [OF c1 conjI [OF c2 conjI [OF c3 c4]]])
qed

text \<open>
  The theorem on the sample store: \<open>hello\<close> finds the first post, in whose content it
  occurs; \<open>(hello\<close>, with its unclosed parenthesis, makes both handlers fail; and
  \<open>(x)\<close> is compiled to a test for \<open>x\<close>, with which \<open>getPosts\<close> lists the third post.
\<close>

theorem C9_search_term_is_a_pattern_witness:
  "''hello'' \<noteq> [] \<and> list_all ordinary ''hello''
   \<and> searchPosts RegExp_i sample_store (Some ''hello'') = Success 200 [first_post]
   \<and> literal_match ''hello'' first_post
   \<and> list_all (\<lambda>c. ordinary c \<or> isParen c) ''(hello'' \<and> \<not> balanced 0 ''(hello''
   \<and> RegExp_i ''(hello'' = Inl SyntaxError
   \<and> searchPosts RegExp_i sample_store (Some ''(hello'') = Next SyntaxError
   \<and> getPosts RegExp_i sample_store (no_query \<lparr> q_search := Some ''(hello'' \<rparr>) = Next SyntaxError
   \<and> RegExp_i ''(x)'' = Inr (regex_test ''x'')
   \<and> getPosts RegExp_i sample_store (no_query \<lparr> q_search := Some ''(x)'' \<rparr>) =
       Success 200 \<lparr> data = [hex_post], page = 1, limit = 10, total = 1, pages = 1 \<rparr>"
proof -
  have l: "''hello'' \<noteq> [] \<and> list_all ordinary ''hello''"
    by (simp add: ordinary_def isMeta_def)
  have lm: "literal_match ''hello'' first_post"
    unfolding search_matches_literal [symmetric]
    by (simp add: search_matches_def first_post_def toLower_def)
  have b: "list_all (\<lambda>c. ordinary c \<or> isParen c) ''(hello'' \<and> \<not> balanced 0 ''(hello''"
    by (simp add: ordinary_def isMeta_def isParen_def)
  have ne: "''(hello'' \<noteq> []"
    by simp
  note syn = C9_search_term_is_a_pattern [where needle = "''(hello''" and regexp = RegExp_i
        and store = sample_store and q = no_query and n = 200 and m = "regex_test []"
        and e = SyntaxError
        and r = "\<lparr> data = [], page = 1, limit = 10, total = 0, pages = 0 \<rparr>"]
  have s0: "RegExp_i ''(hello'' = Inl SyntaxError"
    using syn b by blast
  have s1: "searchPosts RegExp_i sample_store (Some ''(hello'') = Next SyntaxError"
    using syn ne s0 by blast
  have s2: "getPosts RegExp_i sample_store (no_query \<lparr> q_search := Some ''(hello'' \<rparr>)
      = Next SyntaxError"
    using syn ne s0 by blast
  show ?thesis
    using l lm b s0 s1 s2 searchPosts_hello RegExp_i_group getPosts_group by blast
qed

text \<open>
  The claim as stated fails for terms with metacharacters: with the term \<open>(x)\<close> both
  handlers find a post in whose title, content and tags the text \<open>(x)\<close> does not occur,
  and the term \<open>(\<close> makes the request fail.
\<close>

theorem C9_group_is_not_literal_text:
  "searchPosts RegExp_i [hex_post] (Some ''(x)'') = Success 200 [hex_post]
   \<and> getPosts RegExp_i sample_store (no_query \<lparr> q_search := Some ''(x)'' \<rparr>) =
       Success 200 \<lparr> data = [hex_post], page = 1, limit = 10, total = 1, pages = 1 \<rparr>
   \<and> \<not> literal_match ''(x)'' hex_post
   \<and> searchPosts RegExp_i [hex_post] (Some ''('') = Next SyntaxError"
proof -
  have a: "searchPosts RegExp_i [hex_post] (Some ''(x)'') = Success 200 [hex_post]"
    by (simp add: searchPosts_def truthy_def field_text_def RegExp_i_group
        search_matches_def newest_first_def hex_post_def)
  have b: "\<not> literal_match ''(x)'' hex_post"
    by (simp add: literal_match_def contains_ci_def hex_post_def toLower_def sublist_Cons_right)
  have c: "searchPosts RegExp_i [hex_post] (Some ''('') = Next SyntaxError"
    by (simp add: searchPosts_def truthy_def field_text_def RegExp_i_def ordinary_def isMeta_def
        isParen_def)
  show ?thesis using a b c getPosts_group by simp
qed

end
